theory Spec2Isabelle
  imports Complex_Main "HOL-Library.Word"
begin

unbundle bit_operations_syntax

section \<open>The voice streaming client of \<open>src/components/VoiceControl.tsx\<close>\<close>

text \<open>
  The component keeps its session in React state and in refs, and changes it from event
  handlers: the socket's \<open>onopen\<close>, \<open>onmessage\<close> and \<open>onclose\<close>, the audio
  worklet's \<open>onmessage\<close>, the chunk timer and the buttons. The model is one record of
  that state and one function per source function, taking the state and returning the
  new one. Some fields are not variables of the source but what it leaves in the browser:
  \<open>console\<close>, everything \<open>log\<close> has printed with \<open>console.log\<close>, oldest
  first; \<open>wire\<close>, everything handed to \<open>WebSocket.send\<close>, oldest first;
  \<open>uncaught\<close>, the exceptions that have left a handler; \<open>orphans\<close>, the sockets
  of earlier \<open>connect\<close> calls, which \<open>wsRef\<close> no longer holds but whose handlers
  are still attached; \<open>workletAlive\<close> and \<open>analyserLoopAlive\<close>, whether a capture
  handler is installed and fed; \<open>chunkTimers\<close>, the number of chunk timer chains that
  are armed.

  Conventions.
  \<^item> Samples and energies are \<open>real\<close>. A \<open>Float32Array\<close> element times \<open>32767\<close>
    is exact in a double (24 + 15 bits of mantissa), so the conversion to PCM is exact on
    reals; samples are finite. The one \<open>NaN\<close> the source computes from finite samples
    is the energy of an empty frame (\<open>0 / 0\<close>); it is \<open>None\<close> in the model.
  \<^item> \<open>Date.now()\<close> is an argument: milliseconds as \<open>int\<close>.
  \<^item> A log entry holds the message and its level. Its timestamp
    (\<open>toLocaleTimeString\<close>) is left out. Messages are a datatype, one constructor per
    \<open>log\<close> call of the source, with the interpolated values as arguments.
  \<^item> State that only feeds the display is left out: the level meter and its history
    (\<open>updateVisualization\<close>), \<open>silenceDetected\<close>, the confidence indicator.
    \<open>silenceTimeoutRef\<close> is never assigned a timer and is left out too.
\<close>

subsection \<open>Data\<close>

text \<open>
  \<open>argumentLimit\<close> is not a field of the source's \<open>AudioConfig\<close>. It is the
  largest number of arguments the engine accepts in one call, which
  \<open>String.fromCharCode.apply\<close> meets in \<open>sendAudioChunk\<close>. It differs between
  engines and is a parameter of the model, kept with the configuration because it is
  fixed for a run as well.
\<close>

record AudioConfig =
  serverUrl :: string
  chunkSize :: nat
  audioQuality :: nat
  silenceThreshold :: real
  autoCommitDelay :: int
  argumentLimit :: nat

record AudioStats =
  totalChunks :: nat
  totalBytes :: nat
  latencySum :: int
  latencyCount :: nat
  bufferSize :: real

datatype LogType = Info | Success | Warning | Error

datatype LogText =
    ConnectingTo string
  | ConnectedToServer
  | ConnectionClosed
  | ConnectionFailed
  | WebSocketErrorOccurred
  | AutoCommitting int
  | EnteringSleepMode
  | WakingUp
  | EnteringProcessingMode
  | ExitingProcessingMode
  | Received string
  | SessionCreatedText string
  | SessionUpdatedText
  | BufferCommittedForProcessing
  | ResponseCreatedText string
  | ReceivedAudioDelta
  | TranscriptionCompleted int
  | ServerErrorText string
  | UnknownMessageType string
  | VoiceCommandExecuted string
  | RequestingMicrophone
  | WorkletLoaded
  | WorkletFailed
  | RecordingStartedWorklet
  | UsingFallback
  | RecordingStartedFallback
  | FailedToStartRecording
  | RecordingStopped
  | CannotCommit
  | NoAudioDataToCommit
  | BufferCommittedForTranscription
  | AudioBufferCleared
  | ClientInitialized
  | ClickConnectToBegin

record LogEntry =
  message :: LogText
  logType :: LogType

datatype ReadyState = CONNECTING | OPEN | CLOSING | CLOSED

datatype JsError = RangeError

text \<open>
  What goes to \<open>WebSocket.send\<close>. An append carries the little-endian bytes of the
  samples; the source sends their base64 text (\<open>btoa\<close>), an injective encoding of the
  same bytes.
\<close>

datatype WireMessage =
    InputAudioBufferAppend "8 word list"
  | InputAudioBufferCommit
  | InputAudioBufferClear

text \<open>
  A parsed server message, by its \<open>type\<close>. \<open>SessionCreated id model\<close> has
  \<open>session.model\<close> absent as \<open>None\<close>. \<open>ResponseDone text\<close> has \<open>Some t\<close> when
  \<open>response.output[0].content[0].text\<close> exists, \<open>None\<close> when a link of that chain is
  missing or empty. \<open>OtherMessage ty\<close> is any type the \<open>switch\<close> has no case for.
  Messages are well formed: a \<open>session.created\<close> has its \<open>session\<close>, a
  \<open>response.created\<close> and a \<open>response.done\<close> their \<open>response\<close>, an \<open>error\<close>
  its \<open>error\<close>.
\<close>

datatype ServerMessage =
    SessionCreated string "string option"
  | SessionUpdated
  | InputAudioBufferCommitted
  | ResponseCreated string
  | ResponseAudioDelta
  | ResponseDone "string option"
  | ServerError string
  | OtherMessage string

record CommandResponse =
  success :: bool
  responseMessage :: string

record VoiceState =
  isConnected :: bool
  isRecording :: bool
  audioStats :: AudioStats
  transcription :: string
  sessionInfo :: "(string \<times> string) option"
  logs :: "LogEntry list"
  wsRef :: "ReadyState option"
  audioBufferRef :: "real list"
  debugAudioDataRef :: "real list"
  sessionIdRef :: "string option"
  chunkCounterRef :: nat
  totalBytesRef :: nat
  latencySumRef :: int
  latencyCountRef :: nat
  isProcessingAudioRef :: bool
  isSleepingRef :: bool
  silenceDetectionBufferRef :: "real option list"
  lastSpeechTimeRef :: int
  hasSpeechInBufferRef :: bool
  command :: string
  commandHistory :: "string list"
  commandResult :: "CommandResponse option"
  console :: "LogEntry list"
  wire :: "WireMessage list"
  uncaught :: "JsError list"
  orphans :: "ReadyState list"
  workletAlive :: bool
  analyserLoopAlive :: bool
  chunkTimers :: nat

definition silenceDetectionWindow :: nat where
  "silenceDetectionWindow = 10"

subsection \<open>Logging and the two mode flags\<close>

text \<open>
  The source's \<open>log\<close>, named \<open>logLine\<close> here because \<open>log\<close> is the logarithm.
  It puts the entry first in \<open>logs\<close>, keeps the first hundred, and prints it.
\<close>

definition logLine :: "LogText \<Rightarrow> LogType \<Rightarrow> VoiceState \<Rightarrow> VoiceState" where
  "logLine m ty s =
     s\<lparr>logs := take 100 (\<lparr>message = m, logType = ty\<rparr> # logs s),
       console := console s @ [\<lparr>message = m, logType = ty\<rparr>]\<rparr>"

definition setSleeping :: "bool \<Rightarrow> VoiceState \<Rightarrow> VoiceState" where
  "setSleeping sleeping s =
     (if isSleepingRef s \<noteq> sleeping
      then (if sleeping
            then logLine EnteringSleepMode Info (s\<lparr>isSleepingRef := sleeping\<rparr>)
            else logLine WakingUp Info (s\<lparr>isSleepingRef := sleeping\<rparr>))
      else s)"

definition setProcessing :: "bool \<Rightarrow> VoiceState \<Rightarrow> VoiceState" where
  "setProcessing processing s =
     (if isProcessingAudioRef s \<noteq> processing
      then (if processing
            then (logLine EnteringProcessingMode Info (s\<lparr>isProcessingAudioRef := processing\<rparr>))
                   \<lparr>transcription := ''Processing audio...''\<rparr>
            else logLine ExitingProcessingMode Info (s\<lparr>isProcessingAudioRef := processing\<rparr>))
      else s)"

definition updateStats :: "AudioConfig \<Rightarrow> VoiceState \<Rightarrow> VoiceState" where
  "updateStats cfg s =
     s\<lparr>audioStats :=
         \<lparr>totalChunks = chunkCounterRef s,
          totalBytes = totalBytesRef s,
          latencySum = latencySumRef s,
          latencyCount = latencyCountRef s,
          bufferSize = real (length (audioBufferRef s)) / real (audioQuality cfg * 2)\<rparr>\<rparr>"

subsection \<open>Samples to bytes\<close>

text \<open>
  \<open>processAudioData\<close> clamps a sample to \<open>[-1, 1]\<close> and scales it by \<open>32767\<close>; the
  buffer holds that number, not yet an integer. \<open>new Int16Array(pcmData)\<close> in
  \<open>sendAudioChunk\<close> converts it: the fraction is dropped towards zero and the integer
  is taken modulo \<open>2 ^ 16\<close>, which \<open>word_of_int\<close> does.
\<close>

definition pcmOfSample :: "real \<Rightarrow> real" where
  "pcmOfSample x = max (-1) (min 1 x) * 32767"

definition truncate :: "real \<Rightarrow> int" where
  "truncate r = (if r < 0 then - \<lfloor>- r\<rfloor> else \<lfloor>r\<rfloor>)"

definition toInt16 :: "real \<Rightarrow> 16 word" where
  "toInt16 r = word_of_int (truncate r)"

definition bytesOfInt16 :: "16 word \<Rightarrow> 8 word list" where
  "bytesOfInt16 v = [ucast (v AND 0xFF), ucast (signed_drop_bit 8 v AND 0xFF)]"

definition bytesOfPcm :: "real list \<Rightarrow> 8 word list" where
  "bytesOfPcm pcmData = concat (map (\<lambda>v. bytesOfInt16 (toInt16 v)) pcmData)"

subsection \<open>Sending: append, commit, clear\<close>

text \<open>
  An exception is a value of the state: the function that throws adds it to
  \<open>uncaught\<close> and stops, and every caller tests with \<open>threw\<close> whether the call
  it made has thrown, and stops as well. No handler of the component catches what
  \<open>sendAudioChunk\<close> throws, so the exception leaves the handler, and the state is
  what it was at the throw.

  \<open>sendAudioChunk\<close> builds the text to encode with
  \<open>String.fromCharCode.apply(null, Array.from(bytes))\<close>, one argument per byte; with
  more bytes than the engine takes as arguments the call throws a \<open>RangeError\<close>,
  before anything is sent or counted.
\<close>

definition threw :: "VoiceState \<Rightarrow> VoiceState \<Rightarrow> bool" where
  "threw before after = (length (uncaught before) < length (uncaught after))"

definition sendAudioChunk :: "AudioConfig \<Rightarrow> real list \<Rightarrow> VoiceState \<Rightarrow> VoiceState" where
  "sendAudioChunk cfg pcmData s =
     (if wsRef s = None \<or> wsRef s \<noteq> Some OPEN \<or> isProcessingAudioRef s then s
      else if length (bytesOfPcm pcmData) > argumentLimit cfg
      then s\<lparr>uncaught := uncaught s @ [RangeError]\<rparr>
      else updateStats cfg
             (s\<lparr>wire := wire s @ [InputAudioBufferAppend (bytesOfPcm pcmData)],
                chunkCounterRef := chunkCounterRef s + 1,
                totalBytesRef := totalBytesRef s + length (bytesOfPcm pcmData)\<rparr>))"

text \<open>
  \<open>audioBufferRef.current.splice(0)\<close> empties the buffer and returns what it held, before
  \<open>sendAudioChunk\<close> runs. The inner test \<open>length > 0\<close> is kept although the early
  return above it has already decided it.
\<close>

definition commitAudioBuffer :: "AudioConfig \<Rightarrow> VoiceState \<Rightarrow> VoiceState" where
  "commitAudioBuffer cfg s =
     (if wsRef s = None \<or> wsRef s \<noteq> Some OPEN \<or> isProcessingAudioRef s
      then logLine CannotCommit Warning s
      else if length (audioBufferRef s) = 0
      then logLine NoAudioDataToCommit Warning s
      else
        (let s1 = (if length (audioBufferRef s) > 0
                   then sendAudioChunk cfg (audioBufferRef s) (s\<lparr>audioBufferRef := []\<rparr>)
                   else s)
         in if threw s s1 then s1
            else
              (let s2 = s1\<lparr>wire := wire s1 @ [InputAudioBufferCommit]\<rparr>;
                   s3 = logLine BufferCommittedForTranscription Info s2;
                   s4 = setProcessing True s3
               in s4\<lparr>hasSpeechInBufferRef := False\<rparr>)))"

definition clearAudioBuffer :: "AudioConfig \<Rightarrow> VoiceState \<Rightarrow> VoiceState" where
  "clearAudioBuffer cfg s =
     (if wsRef s = None \<or> wsRef s \<noteq> Some OPEN then s
      else
        (let s1 = s\<lparr>audioBufferRef := [], hasSpeechInBufferRef := False\<rparr>;
             s2 = s1\<lparr>wire := wire s1 @ [InputAudioBufferClear]\<rparr>;
             s3 = logLine AudioBufferCleared Info s2;
             s4 = (if isProcessingAudioRef s3 then setProcessing False s3 else s3)
         in updateStats cfg s4))"

subsection \<open>Voice activity detection\<close>

text \<open>
  The energy of a frame is the root of the mean square of its samples; on an empty frame
  the source divides zero by zero and gets \<open>NaN\<close>, here \<open>None\<close>. The window keeps the
  last \<open>silenceDetectionWindow\<close> energies: \<open>push\<close>, then one \<open>shift\<close> when it has
  grown past the bound. A sum with a \<open>NaN\<close> in it is \<open>NaN\<close>, and \<open>NaN < t\<close> is
  false, so such a window does not count as silent.
\<close>

definition rms :: "real list \<Rightarrow> real option" where
  "rms audioData =
     (if audioData = [] then None
      else Some (sqrt (sum_list (map (\<lambda>sample. sample * sample) audioData)
                       / real (length audioData))))"

definition pushRms :: "real option \<Rightarrow> real option list \<Rightarrow> real option list" where
  "pushRms r w =
     (if length (w @ [r]) > silenceDetectionWindow then tl (w @ [r]) else w @ [r])"

definition avgRms :: "real option list \<Rightarrow> real option" where
  "avgRms w =
     (if w = [] \<or> None \<in> set w then None
      else Some (sum_list (map the w) / real (length w)))"

definition isSilent :: "AudioConfig \<Rightarrow> real option list \<Rightarrow> bool" where
  "isSilent cfg w = (case avgRms w of None \<Rightarrow> False | Some a \<Rightarrow> a < silenceThreshold cfg)"

definition detectSilence :: "AudioConfig \<Rightarrow> int \<Rightarrow> real list \<Rightarrow> VoiceState \<Rightarrow> VoiceState" where
  "detectSilence cfg currentTime audioData s =
     (let s1 = s\<lparr>silenceDetectionBufferRef :=
                   pushRms (rms audioData) (silenceDetectionBufferRef s)\<rparr>;
          timeSinceLastSpeech = currentTime - lastSpeechTimeRef s1
      in if \<not> isSilent cfg (silenceDetectionBufferRef s1)
         then setSleeping False
                (s1\<lparr>lastSpeechTimeRef := currentTime, hasSpeechInBufferRef := True\<rparr>)
         else if autoCommitDelay cfg > 0 \<and>
                 timeSinceLastSpeech \<ge> autoCommitDelay cfg \<and>
                 hasSpeechInBufferRef s1 \<and>
                 \<not> isProcessingAudioRef s1
         then commitAudioBuffer cfg (logLine (AutoCommitting (autoCommitDelay cfg)) Info s1)
         else if timeSinceLastSpeech \<ge> 1000 \<and> \<not> hasSpeechInBufferRef s1
         then setSleeping True s1
         else s1)"

text \<open>
  \<open>processAudioData\<close>: detection first, then the test the source comments as
  ``Skip audio buffering if in sleep mode or processing mode'', then the conversion and
  the two pushes. When the commit inside the detection has thrown, nothing of that is
  reached.
\<close>

definition processAudioData :: "AudioConfig \<Rightarrow> int \<Rightarrow> real list \<Rightarrow> VoiceState \<Rightarrow> VoiceState" where
  "processAudioData cfg currentTime audioData s =
     (let s1 = detectSilence cfg currentTime audioData s
      in if threw s s1 then s1
         else if isSleepingRef s1 \<or> isProcessingAudioRef s1 then s1
         else
           (let pcmData = map pcmOfSample audioData;
                s2 = s1\<lparr>audioBufferRef := audioBufferRef s1 @ pcmData,
                        debugAudioDataRef := debugAudioDataRef s1 @ pcmData\<rparr>
            in s2\<lparr>audioStats := (audioStats s2)
                      \<lparr>bufferSize := real (length (audioBufferRef s2))
                                       / real (audioQuality cfg * 2)\<rparr>\<rparr>))"

text \<open>
  The handler of a captured frame, the same test in the worklet's \<open>port.onmessage\<close>
  and in the analyser fallback's \<open>processAudio\<close>: \<open>isRecording && !processing\<close>.
  The \<open>isRecording\<close> of that test, and of the chunk timer's, is not the component's
  state but the constant of the render in which \<open>startAudioProcessing\<close> ran, which the
  effect calls only when \<open>isRecording\<close> is true. It is \<open>capturedIsRecording\<close>
  here, and stays true when the state goes back to false: a frame that reaches the
  handler is dropped only when the client is processing.
\<close>

definition capturedIsRecording :: bool where
  "capturedIsRecording = True"

definition onAudioData :: "AudioConfig \<Rightarrow> int \<Rightarrow> real list \<Rightarrow> VoiceState \<Rightarrow> VoiceState" where
  "onAudioData cfg currentTime audioData s =
     (if capturedIsRecording \<and> \<not> isProcessingAudioRef s
      then processAudioData cfg currentTime audioData s
      else s)"

subsection \<open>The chunk timer\<close>

definition samplesPerChunk :: "AudioConfig \<Rightarrow> nat" where
  "samplesPerChunk cfg = (audioQuality cfg * chunkSize cfg) div 1000"

text \<open>
  One firing of a timer chain. The callback rearms itself with \<open>setTimeout\<close> as its
  last statement, so the chain goes on unless the callback throws before it; nothing
  ever cancels it.
\<close>

definition sendChunk :: "AudioConfig \<Rightarrow> VoiceState \<Rightarrow> VoiceState" where
  "sendChunk cfg s =
     (if capturedIsRecording
      then (if \<not> isProcessingAudioRef s \<and> \<not> isSleepingRef s \<and>
               length (audioBufferRef s) \<ge> samplesPerChunk cfg
            then (let s1 = sendAudioChunk cfg (take (samplesPerChunk cfg) (audioBufferRef s))
                             (s\<lparr>audioBufferRef :=
                                  drop (samplesPerChunk cfg) (audioBufferRef s)\<rparr>)
                  in if threw s s1 then s1\<lparr>chunkTimers := chunkTimers s1 - 1\<rparr> else s1)
            else s)
      else s\<lparr>chunkTimers := chunkTimers s - 1\<rparr>)"

text \<open>The delay until the timer fires again; \<open>None\<close> when it is not rearmed.\<close>

definition nextInterval :: "AudioConfig \<Rightarrow> VoiceState \<Rightarrow> nat option" where
  "nextInterval cfg s =
     (if capturedIsRecording
      then Some (if isSleepingRef s then max (chunkSize cfg * 4) 1000
                 else if isProcessingAudioRef s then min (chunkSize cfg) 100
                 else chunkSize cfg)
      else None)"

subsection \<open>Server messages\<close>

definition messageType :: "ServerMessage \<Rightarrow> string" where
  "messageType m =
     (case m of
        SessionCreated _ _ \<Rightarrow> ''session.created''
      | SessionUpdated \<Rightarrow> ''session.updated''
      | InputAudioBufferCommitted \<Rightarrow> ''input_audio_buffer.committed''
      | ResponseCreated _ \<Rightarrow> ''response.created''
      | ResponseAudioDelta \<Rightarrow> ''response.audio.delta''
      | ResponseDone _ \<Rightarrow> ''response.done''
      | ServerError _ \<Rightarrow> ''error''
      | OtherMessage ty \<Rightarrow> ty)"

text \<open>
  \<open>command.trim()\<close> is empty when every character is white space (the ASCII ones
  here). \<open>processVoiceCommand\<close> also sets and resets the parent's \<open>isProcessing\<close>,
  which ends as it began and is left out.
\<close>

definition isWhitespace :: "char \<Rightarrow> bool" where
  "isWhitespace c = (c \<in> set [CHR '' '', CHR 0x09, CHR 0x0A, CHR 0x0B, CHR 0x0C, CHR 0x0D])"

definition trimmedEmpty :: "string \<Rightarrow> bool" where
  "trimmedEmpty text = (filter (\<lambda>c. \<not> isWhitespace c) text = [])"

definition processVoiceCommand :: "string \<Rightarrow> VoiceState \<Rightarrow> VoiceState" where
  "processVoiceCommand text s =
     (if trimmedEmpty text
      then s\<lparr>commandResult :=
               Some \<lparr>success = False,
                     responseMessage = ''No speech detected. Please try again.''\<rparr>\<rparr>
      else logLine (VoiceCommandExecuted text) Success
             (s\<lparr>commandResult :=
                  Some \<lparr>success = True,
                        responseMessage =
                          ''Voice command processed: '' @ [CHR 0x22] @ text @ [CHR 0x22]\<rparr>\<rparr>))"

text \<open>
  \<open>handleServerMessage\<close> reads the clock twice: \<open>startTime\<close> on entry, and again in
  the \<open>response.done\<close> case, where \<open>responseTime\<close> is the second reading minus the
  first. Both readings are arguments.
\<close>

definition handleServerMessage ::
    "AudioConfig \<Rightarrow> int \<Rightarrow> int \<Rightarrow> ServerMessage \<Rightarrow> VoiceState \<Rightarrow> VoiceState" where
  "handleServerMessage cfg startTime doneTime m s =
     (let s0 = logLine (Received (messageType m)) Info s
      in case m of
           SessionCreated sid model \<Rightarrow>
             logLine (SessionCreatedText sid) Success
               (s0\<lparr>sessionIdRef := Some sid,
                   sessionInfo :=
                     Some (sid, (case model of
                                   None \<Rightarrow> ''Whisper''
                                 | Some md \<Rightarrow> if md = [] then ''Whisper'' else md))\<rparr>)
         | SessionUpdated \<Rightarrow> logLine SessionUpdatedText Success s0
         | InputAudioBufferCommitted \<Rightarrow>
             setProcessing True (logLine BufferCommittedForProcessing Success s0)
         | ResponseCreated rid \<Rightarrow> logLine (ResponseCreatedText rid) Success s0
         | ResponseAudioDelta \<Rightarrow> logLine ReceivedAudioDelta Info s0
         | ResponseDone text \<Rightarrow>
             (let responseTime = doneTime - startTime;
                  s1 = s0\<lparr>latencySumRef := latencySumRef s0 + responseTime,
                          latencyCountRef := latencyCountRef s0 + 1\<rparr>;
                  s2 = (setProcessing False s1)\<lparr>hasSpeechInBufferRef := False\<rparr>;
                  s3 = (case text of
                          None \<Rightarrow> s2
                        | Some transcribedText \<Rightarrow>
                            if transcribedText = [] then s2
                            else processVoiceCommand transcribedText
                                   (s2\<lparr>transcription := transcribedText,
                                       command := transcribedText,
                                       commandHistory :=
                                         transcribedText # take 9 (commandHistory s2)\<rparr>));
                  s4 = logLine (TranscriptionCompleted responseTime) Success s3
              in updateStats cfg s4)
         | ServerError em \<Rightarrow>
             (setProcessing False (logLine (ServerErrorText em) Error s0))
               \<lparr>commandResult :=
                  Some \<lparr>success = False, responseMessage = ''Server error: '' @ em\<rparr>\<rparr>
         | OtherMessage ty \<Rightarrow> logLine (UnknownMessageType ty) Warning s0)"

subsection \<open>Connection and recording\<close>

text \<open>
  \<open>connect\<close> logs, then builds the socket; \<open>urlAccepted\<close> is false when the
  constructor throws on the address, and the \<open>catch\<close> logs the failure. A new socket is
  \<open>CONNECTING\<close>. The assignment to \<open>wsRef.current\<close> drops the reference to the
  socket it held, if any, but not that socket: it lives on among the \<open>orphans\<close>, in
  the state it has, with its three handlers.
\<close>

definition connect :: "AudioConfig \<Rightarrow> bool \<Rightarrow> VoiceState \<Rightarrow> VoiceState" where
  "connect cfg urlAccepted s =
     (let s1 = logLine (ConnectingTo (serverUrl cfg)) Info s
      in if urlAccepted
         then s1\<lparr>orphans := (case wsRef s1 of
                                 None \<Rightarrow> orphans s1
                               | Some r \<Rightarrow> orphans s1 @ [r]),
                 wsRef := Some CONNECTING\<rparr>
         else logLine ConnectionFailed Error s1)"

definition onopen :: "VoiceState \<Rightarrow> VoiceState" where
  "onopen s = logLine ConnectedToServer Success (s\<lparr>isConnected := True\<rparr>)"

definition onclose :: "VoiceState \<Rightarrow> VoiceState" where
  "onclose s =
     logLine ConnectionClosed Warning
       (setProcessing False (s\<lparr>isConnected := False, isRecording := False\<rparr>))"

definition onerror :: "VoiceState \<Rightarrow> VoiceState" where
  "onerror s = logLine WebSocketErrorOccurred Error s"

text \<open>\<open>WebSocket.close()\<close>: a socket that is not yet closed becomes \<open>CLOSING\<close>.\<close>

definition closeSocket :: "ReadyState option \<Rightarrow> ReadyState option" where
  "closeSocket w =
     (case w of None \<Rightarrow> None | Some CLOSED \<Rightarrow> Some CLOSED | Some _ \<Rightarrow> Some CLOSING)"

text \<open>
  \<open>disconnect\<close> closes the current socket only. It also stops the tracks of the
  microphone, disconnects the worklet node and closes the audio context, after which
  the worklet delivers no frame. The analyser fallback's loop is not stopped by that: it
  asks for its next animation frame as long as its \<open>isRecording\<close> is true.
\<close>

definition disconnect :: "VoiceState \<Rightarrow> VoiceState" where
  "disconnect s =
     setSleeping False
       (setProcessing False
          (s\<lparr>wsRef := closeSocket (wsRef s), workletAlive := False,
             isConnected := False, isRecording := False\<rparr>))"

datatype CaptureOutcome = WorkletStarted | FallbackStarted | CaptureFailed

text \<open>
  \<open>startRecording\<close> sets \<open>isRecording\<close>, and the effect on it runs
  \<open>startAudioProcessing\<close>: the microphone is refused (\<open>CaptureFailed\<close>), or the
  worklet loads, or it does not and the analyser fallback starts. Either way of starting
  installs a capture handler and, with \<open>startAudioChunking\<close>, arms one more chain
  of the chunk timer.
\<close>

definition startAudioProcessing :: "int \<Rightarrow> CaptureOutcome \<Rightarrow> VoiceState \<Rightarrow> VoiceState" where
  "startAudioProcessing currentTime outcome s =
     (let s1 = logLine RequestingMicrophone Info s
      in case outcome of
           CaptureFailed \<Rightarrow> logLine FailedToStartRecording Error s1
         | WorkletStarted \<Rightarrow>
             (logLine RecordingStartedWorklet Success
                ((logLine WorkletLoaded Info s1)
                   \<lparr>workletAlive := True,
                    hasSpeechInBufferRef := False, lastSpeechTimeRef := currentTime\<rparr>))
               \<lparr>chunkTimers := chunkTimers s1 + 1\<rparr>
         | FallbackStarted \<Rightarrow>
             (logLine RecordingStartedFallback Success
                ((logLine UsingFallback Info (logLine WorkletFailed Error s1))
                   \<lparr>analyserLoopAlive := True,
                    hasSpeechInBufferRef := False, lastSpeechTimeRef := currentTime\<rparr>))
               \<lparr>chunkTimers := chunkTimers s1 + 1\<rparr>)"

definition startRecording :: "int \<Rightarrow> CaptureOutcome \<Rightarrow> VoiceState \<Rightarrow> VoiceState" where
  "startRecording currentTime outcome s =
     (if isRecording s then s
      else startAudioProcessing currentTime outcome (s\<lparr>isRecording := True\<rparr>))"

definition stopRecording :: "VoiceState \<Rightarrow> VoiceState" where
  "stopRecording s =
     logLine RecordingStopped Warning
       (setProcessing False
          (setSleeping False (s\<lparr>isRecording := False, workletAlive := False\<rparr>)))"

subsection \<open>Events and runs\<close>

text \<open>
  Everything that can happen to the component, with the clock at that moment. A socket
  event reaches its handler only in a state of the socket where the browser raises it:
  \<open>open\<close> on a connecting socket, a message on an open one, \<open>close\<close> on one not yet
  closed. \<open>SocketOpened\<close>, \<open>SocketMessage\<close>, \<open>SocketClosed\<close> and
  \<open>SocketError\<close> are events of the current socket, the one in \<open>wsRef\<close>; the
  \<open>Orphan\<close> events are those of an earlier socket, by its place in \<open>orphans\<close>,
  and run the same handlers. \<open>SocketMessage m d\<close> has \<open>d\<close> milliseconds pass
  between the handler's two readings of the clock.

  The other events call a function of the component: \<open>Connect\<close>, \<open>Disconnect\<close>,
  \<open>StartRecording\<close>, \<open>StopRecording\<close>, \<open>CommitButton\<close> and
  \<open>ClearButton\<close> what a click calls, \<open>AudioData\<close> the capture handler,
  \<open>ChunkTimer\<close> the timer's callback. \<open>step\<close> is what the call does; whether
  the page lets the event happen in a state is \<open>enabled\<close>, below.

  The configuration is the one in force when the recording started, the same for a whole
  run. Capture that cannot start its fallback, and a socket constructor or a message
  that throws, are outside the model.
\<close>

datatype Event =
    Connect bool
  | SocketOpened
  | SocketMessage ServerMessage int
  | SocketClosed
  | SocketError
  | Disconnect
  | StartRecording CaptureOutcome
  | StopRecording
  | AudioData "real list"
  | ChunkTimer
  | CommitButton
  | ClearButton
  | OrphanOpened nat
  | OrphanMessage nat ServerMessage int
  | OrphanClosed nat
  | OrphanError nat

definition step :: "AudioConfig \<Rightarrow> int \<times> Event \<Rightarrow> VoiceState \<Rightarrow> VoiceState" where
  "step cfg te s =
     (case te of (currentTime, e) \<Rightarrow>
        (case e of
           Connect urlAccepted \<Rightarrow> connect cfg urlAccepted s
         | SocketOpened \<Rightarrow>
             if wsRef s = Some CONNECTING then onopen (s\<lparr>wsRef := Some OPEN\<rparr>) else s
         | SocketMessage m d \<Rightarrow>
             if wsRef s = Some OPEN
             then handleServerMessage cfg currentTime (currentTime + d) m s
             else s
         | SocketClosed \<Rightarrow>
             if wsRef s = None \<or> wsRef s = Some CLOSED then s
             else onclose (s\<lparr>wsRef := Some CLOSED\<rparr>)
         | SocketError \<Rightarrow> if wsRef s = None then s else onerror s
         | Disconnect \<Rightarrow> disconnect s
         | StartRecording outcome \<Rightarrow> startRecording currentTime outcome s
         | StopRecording \<Rightarrow> stopRecording s
         | AudioData audioData \<Rightarrow> onAudioData cfg currentTime audioData s
         | ChunkTimer \<Rightarrow> sendChunk cfg s
         | CommitButton \<Rightarrow> commitAudioBuffer cfg s
         | ClearButton \<Rightarrow> clearAudioBuffer cfg s
         | OrphanOpened i \<Rightarrow>
             if i < length (orphans s) \<and> orphans s ! i = CONNECTING
             then onopen (s\<lparr>orphans := (orphans s)[i := OPEN]\<rparr>)
             else s
         | OrphanMessage i m d \<Rightarrow>
             if i < length (orphans s) \<and> orphans s ! i = OPEN
             then handleServerMessage cfg currentTime (currentTime + d) m s
             else s
         | OrphanClosed i \<Rightarrow>
             if i < length (orphans s) \<and> orphans s ! i \<noteq> CLOSED
             then onclose (s\<lparr>orphans := (orphans s)[i := CLOSED]\<rparr>)
             else s
         | OrphanError i \<Rightarrow> if i < length (orphans s) then onerror s else s))"

fun run :: "AudioConfig \<Rightarrow> (int \<times> Event) list \<Rightarrow> VoiceState \<Rightarrow> VoiceState" where
  "run cfg [] s = s"
| "run cfg (te # tes) s = run cfg tes (step cfg te s)"

text \<open>The state of a freshly mounted component; \<open>mountTime\<close> is the clock then.\<close>

definition initialState :: "int \<Rightarrow> VoiceState" where
  "initialState mountTime =
     \<lparr>isConnected = False,
      isRecording = False,
      audioStats = \<lparr>totalChunks = 0, totalBytes = 0, latencySum = 0, latencyCount = 0,
                    bufferSize = 0\<rparr>,
      transcription = ''Ready to receive transcriptions...'',
      sessionInfo = None,
      logs = [\<lparr>message = ClientInitialized, logType = Info\<rparr>,
              \<lparr>message = ClickConnectToBegin, logType = Info\<rparr>],
      wsRef = None,
      audioBufferRef = [],
      debugAudioDataRef = [],
      sessionIdRef = None,
      chunkCounterRef = 0,
      totalBytesRef = 0,
      latencySumRef = 0,
      latencyCountRef = 0,
      isProcessingAudioRef = False,
      isSleepingRef = False,
      silenceDetectionBufferRef = [],
      lastSpeechTimeRef = mountTime,
      hasSpeechInBufferRef = False,
      command = [],
      commandHistory = [],
      commandResult = None,
      console = [],
      wire = [],
      uncaught = [],
      orphans = [],
      workletAlive = False,
      analyserLoopAlive = False,
      chunkTimers = 0\<rparr>"

text \<open>
  The configuration the component starts with, and 65536 arguments to a call, the bound
  of the engine with the smallest one.
\<close>

definition defaultConfig :: AudioConfig where
  "defaultConfig =
     \<lparr>serverUrl = ''ws://localhost:3000/ws'', chunkSize = 250, audioQuality = 16000,
      silenceThreshold = 5 / 1000, autoCommitDelay = 1500, argumentLimit = 65536\<rparr>"

text \<open>
  What the page and the browser let happen in a state. The buttons are as they are
  rendered: the connect button calls \<open>disconnect\<close> when connected and \<open>connect\<close>
  otherwise; the record button is disabled when not connected, and calls
  \<open>stopRecording\<close> when recording and \<open>startRecording\<close> otherwise; the commit and
  the clear button carry the \<open>disabled\<close> expressions of the source, on the published
  \<open>audioStats.bufferSize\<close>. (The parent's \<open>isProcessing\<close>, which also disables
  the first two, is false between the events of this component.) A frame arrives when a
  capture handler is alive, a timer fires when a chain is armed. \<open>possible\<close> is a
  run whose every event is enabled where it happens.
\<close>

fun enabled :: "VoiceState \<Rightarrow> Event \<Rightarrow> bool" where
  "enabled s (Connect urlAccepted) = (\<not> isConnected s)"
| "enabled s Disconnect = isConnected s"
| "enabled s (StartRecording outcome) = (\<not> (\<not> isConnected s) \<and> \<not> isRecording s)"
| "enabled s StopRecording = (\<not> (\<not> isConnected s) \<and> isRecording s)"
| "enabled s CommitButton =
     (\<not> (\<not> isConnected s \<or> bufferSize (audioStats s) = 0 \<or> isProcessingAudioRef s))"
| "enabled s ClearButton =
     (\<not> (\<not> isConnected s \<or> (bufferSize (audioStats s) = 0 \<and> \<not> isProcessingAudioRef s)))"
| "enabled s SocketOpened = (wsRef s = Some CONNECTING)"
| "enabled s (SocketMessage m d) = (wsRef s = Some OPEN)"
| "enabled s SocketClosed = (wsRef s \<noteq> None \<and> wsRef s \<noteq> Some CLOSED)"
| "enabled s SocketError = (wsRef s \<noteq> None)"
| "enabled s (OrphanOpened i) = (i < length (orphans s) \<and> orphans s ! i = CONNECTING)"
| "enabled s (OrphanMessage i m d) = (i < length (orphans s) \<and> orphans s ! i = OPEN)"
| "enabled s (OrphanClosed i) = (i < length (orphans s) \<and> orphans s ! i \<noteq> CLOSED)"
| "enabled s (OrphanError i) = (i < length (orphans s))"
| "enabled s (AudioData audioData) = (workletAlive s \<or> analyserLoopAlive s)"
| "enabled s ChunkTimer = (chunkTimers s > 0)"

fun possible :: "AudioConfig \<Rightarrow> (int \<times> Event) list \<Rightarrow> VoiceState \<Rightarrow> bool" where
  "possible cfg [] s = True"
| "possible cfg (te # tes) s = (enabled s (snd te) \<and> possible cfg tes (step cfg te s))"

subsection \<open>Observations on a run\<close>

text \<open>What one event hands to the socket: the part of \<open>wire\<close> that the step adds.\<close>

definition sentBy :: "AudioConfig \<Rightarrow> int \<times> Event \<Rightarrow> VoiceState \<Rightarrow> WireMessage list" where
  "sentBy cfg te s = drop (length (wire s)) (wire (step cfg te s))"

text \<open>
  How often the detector has announced an auto-commit: the entries
  ``Auto-committing after ... ms of silence'' printed so far.
\<close>

fun isAutoCommitting :: "LogText \<Rightarrow> bool" where
  "isAutoCommitting (AutoCommitting _) = True"
| "isAutoCommitting _ = False"

definition autoCommitCount :: "VoiceState \<Rightarrow> nat" where
  "autoCommitCount s = length (filter (\<lambda>e. isAutoCommitting (message e)) (console s))"

text \<open>
  The four conditions of an auto-commit, on a frame whose smoothed energy is below the
  threshold: a positive delay, at least that long since the last speech, speech seen in
  the buffer, and not processing.
\<close>

definition autoCommitCondition :: "AudioConfig \<Rightarrow> int \<Rightarrow> real list \<Rightarrow> VoiceState \<Rightarrow> bool" where
  "autoCommitCondition cfg currentTime audioData s =
     (isSilent cfg (pushRms (rms audioData) (silenceDetectionBufferRef s)) \<and>
      autoCommitDelay cfg > 0 \<and>
      currentTime - lastSpeechTimeRef s \<ge> autoCommitDelay cfg \<and>
      hasSpeechInBufferRef s \<and>
      \<not> isProcessingAudioRef s)"

text \<open>No event of the run leaves the speech-seen flag set.\<close>

fun noSpeechSeen :: "AudioConfig \<Rightarrow> (int \<times> Event) list \<Rightarrow> VoiceState \<Rightarrow> bool" where
  "noSpeechSeen cfg [] s = True"
| "noSpeechSeen cfg (te # tes) s =
     (\<not> hasSpeechInBufferRef (step cfg te s) \<and> noSpeechSeen cfg tes (step cfg te s))"

text \<open>
  A sequence of timed frames, as events; the smoothed energy staying below the threshold
  on every frame of it, from a window \<open>w\<close>; and one of its frames coming a second or
  more after the last speech.
\<close>

definition audioFrames :: "(int \<times> real list) list \<Rightarrow> (int \<times> Event) list" where
  "audioFrames frames = map (\<lambda>(t, a). (t, AudioData a)) frames"

fun staysSilent :: "AudioConfig \<Rightarrow> real option list \<Rightarrow> (int \<times> real list) list \<Rightarrow> bool" where
  "staysSilent cfg w [] = True"
| "staysSilent cfg w ((t, a) # frames) =
     (isSilent cfg (pushRms (rms a) w) \<and> staysSilent cfg (pushRms (rms a) w) frames)"

definition wakeTimeoutReached :: "VoiceState \<Rightarrow> (int \<times> real list) list \<Rightarrow> bool" where
  "wakeTimeoutReached s frames = list_ex (\<lambda>(t, a). t - lastSpeechTimeRef s \<ge> 1000) frames"





subsection \<open>Some sessions\<close>

text \<open>
  Runs from the mounted component under the default configuration, used as concrete
  inputs below. \<open>loudFrame\<close> and \<open>quietFrame\<close> have the 4096 samples that the
  worklet posts and the analyser reads.
\<close>

definition loudFrame :: "real list" where
  "loudFrame = replicate 4096 (3 / 500)"

definition quietFrame :: "real list" where
  "quietFrame = replicate 4096 0"

definition connectedIdle :: VoiceState where
  "connectedIdle = run defaultConfig [(0, Connect True), (5, SocketOpened)] (initialState 0)"

definition sessionEstablished :: VoiceState where
  "sessionEstablished =
     step defaultConfig (8, SocketMessage (SessionCreated ''sess-1'' (Some ''whisper-1'')) 0)
       connectedIdle"

definition recordingStarted :: VoiceState where
  "recordingStarted = step defaultConfig (10, StartRecording WorkletStarted) connectedIdle"

definition recordingWithSpeech :: VoiceState where
  "recordingWithSpeech = step defaultConfig (20, AudioData [3 / 500]) recordingStarted"

definition awaitingResponse :: VoiceState where
  "awaitingResponse = step defaultConfig (1000, CommitButton) recordingWithSpeech"

definition asleep :: VoiceState where
  "asleep = step defaultConfig (1010, AudioData [0]) recordingStarted"

text \<open>
  A recording that loses its connection. The recording starts at 10 ms; the worklet
  posts a frame every 256 ms from 266 ms on, the timer fires every 250 ms from 260 ms
  on. The first frame is loud, the socket closes at 300 ms, and every later frame is
  quiet. \<open>onclose\<close> stops neither the worklet nor the timer. \<open>silenceAfterLoss\<close> is
  the state at 1760 ms; the frames at 1802 ms and 2058 ms, 1500 ms and more after the
  loud one, lead to \<open>refusedTwice\<close>.
\<close>

definition speechThenLoss :: "(int \<times> Event) list" where
  "speechThenLoss =
     [(260, ChunkTimer), (266, AudioData loudFrame), (300, SocketClosed),
      (510, ChunkTimer), (522, AudioData quietFrame),
      (760, ChunkTimer), (778, AudioData quietFrame),
      (1010, ChunkTimer), (1034, AudioData quietFrame),
      (1260, ChunkTimer), (1290, AudioData quietFrame),
      (1510, ChunkTimer), (1546, AudioData quietFrame),
      (1760, ChunkTimer)]"

definition twoQuietFrames :: "(int \<times> Event) list" where
  "twoQuietFrames =
     [(1802, AudioData quietFrame), (2010, ChunkTimer), (2058, AudioData quietFrame)]"

definition silenceAfterLoss :: VoiceState where
  "silenceAfterLoss = run defaultConfig speechThenLoss recordingStarted"

definition refusedTwice :: VoiceState where
  "refusedTwice = run defaultConfig twoQuietFrames silenceAfterLoss"

section \<open>Lemmas\<close>

subsection \<open>Evaluating the sessions\<close>

lemmas flag_defs = logLine_def setSleeping_def setProcessing_def updateStats_def

lemmas eval_defs = step_def connect_def onopen_def onclose_def disconnect_def closeSocket_def
  samplesPerChunk_def sendChunk_def defaultConfig_def threw_def capturedIsRecording_def
  startRecording_def startAudioProcessing_def onAudioData_def processAudioData_def
  detectSilence_def commitAudioBuffer_def sendAudioChunk_def clearAudioBuffer_def
  handleServerMessage_def processVoiceCommand_def messageType_def
  pushRms_def avgRms_def isSilent_def silenceDetectionWindow_def pcmOfSample_def
  flag_defs Let_def

lemma rms_replicate: "rms (replicate n c) = Some \<bar>c\<bar>" if "0 < n"
proof -
  have "sum_list (map (\<lambda>sample. sample * sample) (replicate n c)) = real n * (c * c)"
    by (simp add: sum_list_replicate)
  with that show ?thesis
    by (simp add: rms_def)
qed

lemma rms_single: "rms [c] = Some \<bar>c\<bar>"
  using rms_replicate[of 1 c] by simp

lemma length_bytesOfPcm: "length (bytesOfPcm xs) = 2 * length xs"
  by (induction xs) (simp_all add: bytesOfPcm_def bytesOfInt16_def)

lemma bytesOfPcm_soft: "bytesOfPcm [98301 / 500] = [0xC4, 0]"
  by (simp add: bytesOfPcm_def bytesOfInt16_def toInt16_def truncate_def)

lemma connectedIdle_eval:
  "connectedIdle =
     (initialState 0)
       \<lparr>isConnected := True,
        wsRef := Some OPEN,
        logs := \<lparr>message = ConnectedToServer, logType = Success\<rparr>
                # \<lparr>message = ConnectingTo ''ws://localhost:3000/ws'', logType = Info\<rparr>
                # logs (initialState 0),
        console := [\<lparr>message = ConnectingTo ''ws://localhost:3000/ws'', logType = Info\<rparr>,
                    \<lparr>message = ConnectedToServer, logType = Success\<rparr>]\<rparr>"
  by (simp add: connectedIdle_def initialState_def eval_defs)

lemma sessionEstablished_eval:
  "sessionEstablished =
     connectedIdle
       \<lparr>sessionInfo := Some (''sess-1'', ''whisper-1''),
        sessionIdRef := Some ''sess-1'',
        logs := \<lparr>message = SessionCreatedText ''sess-1'', logType = Success\<rparr>
                # \<lparr>message = Received ''session.created'', logType = Info\<rparr>
                # logs connectedIdle,
        console := console connectedIdle
                   @ [\<lparr>message = Received ''session.created'', logType = Info\<rparr>,
                      \<lparr>message = SessionCreatedText ''sess-1'', logType = Success\<rparr>]\<rparr>"
  by (simp add: sessionEstablished_def connectedIdle_eval initialState_def eval_defs)

lemma recordingStarted_eval:
  "recordingStarted =
     connectedIdle
       \<lparr>isRecording := True,
        workletAlive := True,
        chunkTimers := 1,
        lastSpeechTimeRef := 10,
        logs := \<lparr>message = RecordingStartedWorklet, logType = Success\<rparr>
                # \<lparr>message = WorkletLoaded, logType = Info\<rparr>
                # \<lparr>message = RequestingMicrophone, logType = Info\<rparr>
                # logs connectedIdle,
        console := console connectedIdle
                   @ [\<lparr>message = RequestingMicrophone, logType = Info\<rparr>,
                      \<lparr>message = WorkletLoaded, logType = Info\<rparr>,
                      \<lparr>message = RecordingStartedWorklet, logType = Success\<rparr>]\<rparr>"
  by (simp add: recordingStarted_def connectedIdle_eval initialState_def eval_defs)

lemma recordingWithSpeech_eval:
  "recordingWithSpeech =
     recordingStarted
       \<lparr>audioStats := (audioStats recordingStarted)\<lparr>bufferSize := 1 / 32000\<rparr>,
        audioBufferRef := [98301 / 500],
        debugAudioDataRef := [98301 / 500],
        silenceDetectionBufferRef := [Some (3 / 500)],
        lastSpeechTimeRef := 20,
        hasSpeechInBufferRef := True\<rparr>"
  by (simp add: recordingWithSpeech_def recordingStarted_eval connectedIdle_eval
      initialState_def eval_defs rms_single)

lemma awaitingResponse_eval:
  "awaitingResponse =
     recordingWithSpeech
       \<lparr>audioStats := \<lparr>totalChunks = 1, totalBytes = 2, latencySum = 0, latencyCount = 0,
                        bufferSize = 0\<rparr>,
        transcription := ''Processing audio...'',
        audioBufferRef := [],
        chunkCounterRef := 1,
        totalBytesRef := 2,
        isProcessingAudioRef := True,
        hasSpeechInBufferRef := False,
        logs := \<lparr>message = EnteringProcessingMode, logType = Info\<rparr>
                # \<lparr>message = BufferCommittedForTranscription, logType = Info\<rparr>
                # logs recordingWithSpeech,
        console := console recordingWithSpeech
                   @ [\<lparr>message = BufferCommittedForTranscription, logType = Info\<rparr>,
                      \<lparr>message = EnteringProcessingMode, logType = Info\<rparr>],
        wire := [InputAudioBufferAppend [0xC4, 0], InputAudioBufferCommit]\<rparr>"
  by (simp add: awaitingResponse_def recordingWithSpeech_eval recordingStarted_eval
      connectedIdle_eval initialState_def eval_defs bytesOfPcm_soft)

lemma asleep_eval:
  "asleep =
     recordingStarted
       \<lparr>isSleepingRef := True,
        silenceDetectionBufferRef := [Some 0],
        logs := \<lparr>message = EnteringSleepMode, logType = Info\<rparr> # logs recordingStarted,
        console := console recordingStarted
                   @ [\<lparr>message = EnteringSleepMode, logType = Info\<rparr>]\<rparr>"
  by (simp add: asleep_def recordingStarted_eval connectedIdle_eval initialState_def
      eval_defs rms_single)

lemma silenceAfterLoss_eval:
  "silenceAfterLoss =
     recordingStarted
       \<lparr>isConnected := False,
        isRecording := False,
        wsRef := Some CLOSED,
        audioStats := (audioStats recordingStarted)\<lparr>bufferSize := 143 / 1000\<rparr>,
        audioBufferRef := replicate 576 0,
        debugAudioDataRef :=
          replicate 4096 (98301 / 500) @ replicate 4096 0 @ replicate 4096 0
          @ replicate 4096 0 @ replicate 4096 0 @ replicate 4096 0,
        silenceDetectionBufferRef := [Some (3 / 500), Some 0, Some 0, Some 0, Some 0, Some 0],
        lastSpeechTimeRef := 266,
        hasSpeechInBufferRef := True,
        logs := \<lparr>message = ConnectionClosed, logType = Warning\<rparr> # logs recordingStarted,
        console := console recordingStarted
                   @ [\<lparr>message = ConnectionClosed, logType = Warning\<rparr>]\<rparr>"
  by (simp add: silenceAfterLoss_def speechThenLoss_def recordingStarted_eval connectedIdle_eval
      initialState_def loudFrame_def quietFrame_def eval_defs rms_replicate length_bytesOfPcm)

lemma refusedTwice_eval:
  "refusedTwice =
     silenceAfterLoss
       \<lparr>audioStats := (audioStats silenceAfterLoss)\<lparr>bufferSize := 149 / 1000\<rparr>,
        audioBufferRef := replicate 672 0 @ replicate 4096 0,
        debugAudioDataRef :=
          debugAudioDataRef silenceAfterLoss @ replicate 4096 0 @ replicate 4096 0,
        silenceDetectionBufferRef :=
          [Some (3 / 500), Some 0, Some 0, Some 0, Some 0, Some 0, Some 0, Some 0],
        logs := \<lparr>message = CannotCommit, logType = Warning\<rparr>
                # \<lparr>message = AutoCommitting 1500, logType = Info\<rparr>
                # \<lparr>message = CannotCommit, logType = Warning\<rparr>
                # \<lparr>message = AutoCommitting 1500, logType = Info\<rparr>
                # logs silenceAfterLoss,
        console := console silenceAfterLoss
                   @ [\<lparr>message = AutoCommitting 1500, logType = Info\<rparr>,
                      \<lparr>message = CannotCommit, logType = Warning\<rparr>,
                      \<lparr>message = AutoCommitting 1500, logType = Info\<rparr>,
                      \<lparr>message = CannotCommit, logType = Warning\<rparr>]\<rparr>"
  by (simp add: refusedTwice_def twoQuietFrames_def silenceAfterLoss_eval recordingStarted_eval
      connectedIdle_eval initialState_def loudFrame_def quietFrame_def eval_defs rms_replicate
      length_bytesOfPcm)

lemmas session_evals = refusedTwice_eval silenceAfterLoss_eval asleep_eval
  awaitingResponse_eval recordingWithSpeech_eval recordingStarted_eval sessionEstablished_eval
  connectedIdle_eval initialState_def

text \<open>
  The runs behind the sessions can happen: every event of them is enabled in the state
  where it occurs.
\<close>

lemma possible_append:
  "possible cfg (tes @ tes') s = (possible cfg tes s \<and> possible cfg tes' (run cfg tes s))"
  by (induction tes arbitrary: s) simp_all

lemma run_append: "run cfg (tes @ tes') s = run cfg tes' (run cfg tes s)"
  by (induction tes arbitrary: s) simp_all

lemma recordingStarted_run:
  "run defaultConfig
     [(0, Connect True), (5, SocketOpened), (10, StartRecording WorkletStarted)]
     (initialState 0) = recordingStarted"
  by (simp add: recordingStarted_def connectedIdle_def)

lemma recordingStarted_possible:
  "possible defaultConfig
     [(0, Connect True), (5, SocketOpened), (10, StartRecording WorkletStarted)]
     (initialState 0)"
  by (simp add: initialState_def eval_defs)

lemma sessionEstablished_possible:
  "possible defaultConfig
     [(0, Connect True), (5, SocketOpened),
      (8, SocketMessage (SessionCreated ''sess-1'' (Some ''whisper-1'')) 0)]
     (initialState 0)"
  by (simp add: initialState_def eval_defs)

lemma awaitingResponse_possible:
  "possible defaultConfig [(20, AudioData [3 / 500]), (1000, CommitButton)] recordingStarted"
  by (simp only: possible.simps snd_conv recordingWithSpeech_def[symmetric])
     (simp add: session_evals)

lemma asleep_possible:
  "possible defaultConfig [(1010, AudioData [0])] recordingStarted"
  by (simp add: session_evals)

lemma speechThenLoss_possible:
  "possible defaultConfig speechThenLoss recordingStarted"
  by (simp add: speechThenLoss_def recordingStarted_eval connectedIdle_eval
      initialState_def loudFrame_def quietFrame_def eval_defs rms_replicate length_bytesOfPcm)

lemma twoQuietFrames_possible:
  "possible defaultConfig twoQuietFrames silenceAfterLoss"
  by (simp add: twoQuietFrames_def silenceAfterLoss_eval recordingStarted_eval connectedIdle_eval
      initialState_def loudFrame_def quietFrame_def eval_defs rms_replicate length_bytesOfPcm)

subsection \<open>What each function sends\<close>

lemma sendAudioChunk_wire:
  "wire (sendAudioChunk cfg pcmData s) =
     (if wsRef s = Some OPEN \<and> \<not> isProcessingAudioRef s \<and>
         length (bytesOfPcm pcmData) \<le> argumentLimit cfg
      then wire s @ [InputAudioBufferAppend (bytesOfPcm pcmData)] else wire s)"
  by (simp add: sendAudioChunk_def flag_defs)

lemma sendAudioChunk_threw:
  "threw s' (sendAudioChunk cfg pcmData s) =
     (if wsRef s = Some OPEN \<and> \<not> isProcessingAudioRef s \<and>
         length (bytesOfPcm pcmData) > argumentLimit cfg
      then length (uncaught s') \<le> length (uncaught s) else threw s' s)"
  by (auto simp: sendAudioChunk_def threw_def flag_defs)

lemma commitAudioBuffer_wire:
  "wire (commitAudioBuffer cfg s) =
     (if wsRef s = Some OPEN \<and> \<not> isProcessingAudioRef s \<and> audioBufferRef s \<noteq> [] \<and>
         length (bytesOfPcm (audioBufferRef s)) \<le> argumentLimit cfg
      then wire s @ [InputAudioBufferAppend (bytesOfPcm (audioBufferRef s)),
                     InputAudioBufferCommit]
      else wire s)"
  by (simp add: commitAudioBuffer_def sendAudioChunk_def threw_def flag_defs Let_def)

lemma clearAudioBuffer_wire:
  "wire (clearAudioBuffer cfg s) =
     (if wsRef s = Some OPEN then wire s @ [InputAudioBufferClear] else wire s)"
  by (simp add: clearAudioBuffer_def flag_defs Let_def)

lemma detectSilence_wire:
  "wire (detectSilence cfg t a s) = wire s \<or>
   (wsRef s = Some OPEN \<and> \<not> isProcessingAudioRef s \<and>
    wire (detectSilence cfg t a s) =
      wire s @ [InputAudioBufferAppend (bytesOfPcm (audioBufferRef s)),
                InputAudioBufferCommit])"
  by (simp add: detectSilence_def commitAudioBuffer_wire flag_defs Let_def)

lemma processAudioData_wire:
  "wire (processAudioData cfg t a s) = wire (detectSilence cfg t a s)"
  by (simp add: processAudioData_def Let_def)

lemma sendChunk_wire:
  "wire (sendChunk cfg s) = wire s \<or>
   (wsRef s = Some OPEN \<and> \<not> isProcessingAudioRef s \<and>
    wire (sendChunk cfg s) =
      wire s @ [InputAudioBufferAppend
                  (bytesOfPcm (take (samplesPerChunk cfg) (audioBufferRef s)))])"
  by (simp add: sendChunk_def sendAudioChunk_wire Let_def)

lemma handleServerMessage_wire:
  "wire (handleServerMessage cfg t0 t1 m s) = wire s"
  by (cases m) (simp_all add: handleServerMessage_def processVoiceCommand_def flag_defs Let_def
      split: option.splits)

lemma lifecycle_wire:
  "wire (connect cfg b s) = wire s"
  "wire (onopen s) = wire s"
  "wire (onclose s) = wire s"
  "wire (onerror s) = wire s"
  "wire (disconnect s) = wire s"
  "wire (startRecording t oc s) = wire s"
  "wire (stopRecording s) = wire s"
  by (simp_all add: connect_def onopen_def onclose_def onerror_def disconnect_def
      startRecording_def startAudioProcessing_def stopRecording_def flag_defs Let_def
      split: CaptureOutcome.splits)

text \<open>
  A step leaves \<open>wire\<close> as it is, or the socket was open and the step added to it; if
  the client was processing, all it can add is a clear.
\<close>

lemma step_wire_cases:
  "wire (step cfg te s) = wire s
   \<or> (wsRef s = Some OPEN \<and> (\<exists>new. wire (step cfg te s) = wire s @ new \<and>
        (isProcessingAudioRef s \<longrightarrow> new = [InputAudioBufferClear])))"
proof (cases te)
  case (Pair t e)
  show ?thesis
  proof (cases e)
    case (AudioData a)
    then show ?thesis using Pair detectSilence_wire[of cfg t a s]
      by (auto simp: step_def onAudioData_def capturedIsRecording_def processAudioData_wire)
  next
    case ChunkTimer
    then show ?thesis using Pair sendChunk_wire[of cfg s]
      by (auto simp: step_def)
  next
    case CommitButton
    then show ?thesis using Pair
      by (simp add: step_def commitAudioBuffer_wire)
  qed (simp_all add: Pair step_def lifecycle_wire handleServerMessage_wire
        clearAudioBuffer_wire)
qed

lemma step_wire_append: "wire (step cfg te s) = wire s @ sentBy cfg te s"
  using step_wire_cases[of cfg te s] unfolding sentBy_def by auto

subsection \<open>The energy window\<close>

lemma pushRms_length:
  "length w \<le> silenceDetectionWindow \<Longrightarrow> length (pushRms r w) \<le> silenceDetectionWindow"
  by (simp add: pushRms_def)

lemma pushRms_last:
  "pushRms r w = drop (length (w @ [r]) - silenceDetectionWindow) (w @ [r])"
  if "length w \<le> silenceDetectionWindow"
proof (cases "length w = silenceDetectionWindow")
  case True
  then have "pushRms r w = tl (w @ [r])"
    by (simp add: pushRms_def)
  moreover from True have "length (w @ [r]) - silenceDetectionWindow = Suc 0"
    by simp
  ultimately show ?thesis
    by (simp only: drop_Suc drop_0)
next
  case False
  with that have "length (w @ [r]) \<le> silenceDetectionWindow"
    by simp
  then show ?thesis
    by (simp add: pushRms_def)
qed

lemma commitAudioBuffer_window:
  "silenceDetectionBufferRef (commitAudioBuffer cfg s) = silenceDetectionBufferRef s"
  by (simp add: commitAudioBuffer_def sendAudioChunk_def threw_def flag_defs Let_def)

lemma detectSilence_window:
  "silenceDetectionBufferRef (detectSilence cfg t a s) =
     pushRms (rms a) (silenceDetectionBufferRef s)"
  by (simp add: detectSilence_def commitAudioBuffer_window flag_defs Let_def)

lemma processAudioData_window:
  "silenceDetectionBufferRef (processAudioData cfg t a s) =
     pushRms (rms a) (silenceDetectionBufferRef s)"
  by (simp add: processAudioData_def detectSilence_window Let_def)

lemma handleServerMessage_window:
  "silenceDetectionBufferRef (handleServerMessage cfg t0 t1 m s) = silenceDetectionBufferRef s"
  by (cases m) (simp_all add: handleServerMessage_def processVoiceCommand_def flag_defs Let_def
      split: option.splits)

lemma lifecycle_window:
  "silenceDetectionBufferRef (connect cfg b s) = silenceDetectionBufferRef s"
  "silenceDetectionBufferRef (onopen s) = silenceDetectionBufferRef s"
  "silenceDetectionBufferRef (onclose s) = silenceDetectionBufferRef s"
  "silenceDetectionBufferRef (onerror s) = silenceDetectionBufferRef s"
  "silenceDetectionBufferRef (disconnect s) = silenceDetectionBufferRef s"
  "silenceDetectionBufferRef (startRecording t oc s) = silenceDetectionBufferRef s"
  "silenceDetectionBufferRef (stopRecording s) = silenceDetectionBufferRef s"
  "silenceDetectionBufferRef (sendChunk cfg s) = silenceDetectionBufferRef s"
  "silenceDetectionBufferRef (clearAudioBuffer cfg s) = silenceDetectionBufferRef s"
  by (simp_all add: connect_def onopen_def onclose_def onerror_def disconnect_def
      startRecording_def startAudioProcessing_def stopRecording_def sendChunk_def
      sendAudioChunk_def clearAudioBuffer_def threw_def flag_defs Let_def
      split: CaptureOutcome.splits)

lemma step_window:
  "length (silenceDetectionBufferRef s) \<le> silenceDetectionWindow \<Longrightarrow>
   length (silenceDetectionBufferRef (step cfg te s)) \<le> silenceDetectionWindow"
  by (cases te; cases "snd te")
     (simp_all add: step_def onAudioData_def capturedIsRecording_def processAudioData_window pushRms_length
        lifecycle_window handleServerMessage_window commitAudioBuffer_window)

lemma run_window:
  "length (silenceDetectionBufferRef s) \<le> silenceDetectionWindow \<Longrightarrow>
   length (silenceDetectionBufferRef (run cfg tes s)) \<le> silenceDetectionWindow"
  by (induction tes arbitrary: s) (simp_all add: step_window)

subsection \<open>Announced auto-commits\<close>

lemma logLine_autoCommitCount:
  "autoCommitCount (logLine m ty s) = autoCommitCount s + (if isAutoCommitting m then 1 else 0)"
  by (simp add: autoCommitCount_def logLine_def)

lemma setters_autoCommitCount:
  "autoCommitCount (setSleeping b s) = autoCommitCount s"
  "autoCommitCount (setProcessing b s) = autoCommitCount s"
  "autoCommitCount (updateStats cfg s) = autoCommitCount s"
  "autoCommitCount (s\<lparr>wsRef := w\<rparr>) = autoCommitCount s"
  "autoCommitCount (s\<lparr>orphans := os\<rparr>) = autoCommitCount s"
  by (simp_all add: autoCommitCount_def flag_defs)

lemma commitAudioBuffer_autoCommitCount:
  "autoCommitCount (commitAudioBuffer cfg s) = autoCommitCount s"
  by (simp add: autoCommitCount_def commitAudioBuffer_def sendAudioChunk_def threw_def
      flag_defs Let_def)

lemma detectSilence_autoCommitCount:
  "autoCommitCount (detectSilence cfg t a s) =
     autoCommitCount s + (if autoCommitCondition cfg t a s then 1 else 0)"
  by (simp add: detectSilence_def autoCommitCondition_def commitAudioBuffer_autoCommitCount
      logLine_autoCommitCount setters_autoCommitCount Let_def)
     (simp add: autoCommitCount_def)

lemma processAudioData_autoCommitCount:
  "autoCommitCount (processAudioData cfg t a s) = autoCommitCount (detectSilence cfg t a s)"
  by (simp add: processAudioData_def Let_def autoCommitCount_def)

lemma handleServerMessage_autoCommitCount:
  "autoCommitCount (handleServerMessage cfg t0 t1 m s) = autoCommitCount s"
  by (cases m) (simp_all add: autoCommitCount_def handleServerMessage_def processVoiceCommand_def
      flag_defs Let_def split: option.splits)

lemma lifecycle_autoCommitCount:
  "autoCommitCount (connect cfg b s) = autoCommitCount s"
  "autoCommitCount (onopen s) = autoCommitCount s"
  "autoCommitCount (onclose s) = autoCommitCount s"
  "autoCommitCount (onerror s) = autoCommitCount s"
  "autoCommitCount (disconnect s) = autoCommitCount s"
  "autoCommitCount (startRecording t oc s) = autoCommitCount s"
  "autoCommitCount (stopRecording s) = autoCommitCount s"
  "autoCommitCount (sendChunk cfg s) = autoCommitCount s"
  "autoCommitCount (clearAudioBuffer cfg s) = autoCommitCount s"
  by (simp_all add: autoCommitCount_def connect_def onopen_def onclose_def onerror_def
      disconnect_def startRecording_def startAudioProcessing_def stopRecording_def sendChunk_def
      sendAudioChunk_def clearAudioBuffer_def flag_defs Let_def
      split: CaptureOutcome.splits)

lemma step_autoCommitCount:
  "autoCommitCount (step cfg te s) =
     autoCommitCount s +
     (case te of (t, AudioData a) \<Rightarrow>
        if autoCommitCondition cfg t a s then 1 else 0
      | _ \<Rightarrow> 0)"
proof (cases te)
  case (Pair t e)
  show ?thesis
  proof (cases e)
    case (AudioData a)
    with Pair show ?thesis
      by (simp add: step_def onAudioData_def capturedIsRecording_def processAudioData_autoCommitCount
          detectSilence_autoCommitCount) (simp add: autoCommitCondition_def)
  qed (simp_all add: Pair step_def lifecycle_autoCommitCount handleServerMessage_autoCommitCount
        commitAudioBuffer_autoCommitCount setters_autoCommitCount)
qed

lemma run_no_autoCommit:
  "\<not> hasSpeechInBufferRef s \<Longrightarrow> noSpeechSeen cfg tes s \<Longrightarrow>
   autoCommitCount (run cfg tes s) = autoCommitCount s"
proof (induction tes arbitrary: s)
  case Nil
  then show ?case by simp
next
  case (Cons te tes)
  have "autoCommitCount (step cfg te s) = autoCommitCount s"
    using Cons.prems(1)
    by (cases te; cases "snd te") (simp_all add: step_autoCommitCount autoCommitCondition_def)
  with Cons show ?case by simp
qed

lemma accepted_autoCommit:
  assumes "autoCommitCondition cfg t a s" "wsRef s = Some OPEN" "audioBufferRef s \<noteq> []"
      and "length (bytesOfPcm (audioBufferRef s)) \<le> argumentLimit cfg"
  shows "isProcessingAudioRef (detectSilence cfg t a s) \<and>
         \<not> hasSpeechInBufferRef (detectSilence cfg t a s) \<and>
         audioBufferRef (detectSilence cfg t a s) = [] \<and>
         wire (detectSilence cfg t a s) =
           wire s @ [InputAudioBufferAppend (bytesOfPcm (audioBufferRef s)),
                     InputAudioBufferCommit]"
  using assms
  by (simp add: autoCommitCondition_def detectSilence_def commitAudioBuffer_def
      sendAudioChunk_def threw_def flag_defs Let_def)

subsection \<open>Silent frames with no speech seen\<close>

lemma silent_frame_without_speech:
  assumes "isRecording s" "\<not> isProcessingAudioRef s" "\<not> hasSpeechInBufferRef s"
      and "isSilent cfg (pushRms (rms a) (silenceDetectionBufferRef s))"
  shows "isRecording (step cfg (t, AudioData a) s)"
    and "\<not> isProcessingAudioRef (step cfg (t, AudioData a) s)"
    and "\<not> hasSpeechInBufferRef (step cfg (t, AudioData a) s)"
    and "lastSpeechTimeRef (step cfg (t, AudioData a) s) = lastSpeechTimeRef s"
    and "silenceDetectionBufferRef (step cfg (t, AudioData a) s) =
           pushRms (rms a) (silenceDetectionBufferRef s)"
    and "isSleepingRef (step cfg (t, AudioData a) s) =
           (isSleepingRef s \<or> t - lastSpeechTimeRef s \<ge> 1000)"
    and "console (step cfg (t, AudioData a) s) =
           console s @ (if \<not> isSleepingRef s \<and> t - lastSpeechTimeRef s \<ge> 1000
                        then [\<lparr>message = EnteringSleepMode, logType = Info\<rparr>] else [])"
  using assms
  by (simp_all add: step_def onAudioData_def capturedIsRecording_def processAudioData_def
      detectSilence_def threw_def flag_defs Let_def)

lemma silent_frames_console:
  assumes "isRecording s" "\<not> isProcessingAudioRef s" "\<not> hasSpeechInBufferRef s"
      and "staysSilent cfg (silenceDetectionBufferRef s) frames"
  shows "console (run cfg (audioFrames frames) s) =
           console s @ (if \<not> isSleepingRef s \<and> wakeTimeoutReached s frames
                        then [\<lparr>message = EnteringSleepMode, logType = Info\<rparr>] else []) \<and>
         isSleepingRef (run cfg (audioFrames frames) s) =
           (isSleepingRef s \<or> wakeTimeoutReached s frames)"
  using assms
proof (induction frames arbitrary: s)
  case Nil
  then show ?case by (simp add: audioFrames_def wakeTimeoutReached_def)
next
  case (Cons f frames)
  obtain t a where f: "f = (t, a)" by (cases f)
  let ?s = "step cfg (t, AudioData a) s"
  from Cons.prems(4) f
  have sil: "isSilent cfg (pushRms (rms a) (silenceDetectionBufferRef s))"
    and rest: "staysSilent cfg (pushRms (rms a) (silenceDetectionBufferRef s)) frames"
    by simp_all
  note fr = silent_frame_without_speech[OF Cons.prems(1-3) sil, of t]
  have w: "wakeTimeoutReached ?s frames = wakeTimeoutReached s frames"
    by (simp add: wakeTimeoutReached_def fr(4))
  have ih: "console (run cfg (audioFrames frames) ?s) =
           console ?s @ (if \<not> isSleepingRef ?s \<and> wakeTimeoutReached ?s frames
                        then [\<lparr>message = EnteringSleepMode, logType = Info\<rparr>] else []) \<and>
         isSleepingRef (run cfg (audioFrames frames) ?s) =
           (isSleepingRef ?s \<or> wakeTimeoutReached ?s frames)"
    using Cons.IH[OF fr(1) fr(2) fr(3)] rest fr(5) by simp
  have r: "run cfg (audioFrames (f # frames)) s = run cfg (audioFrames frames) ?s"
    by (simp add: audioFrames_def f)
  have c: "wakeTimeoutReached s (f # frames) =
             (t - lastSpeechTimeRef s \<ge> 1000 \<or> wakeTimeoutReached s frames)"
    by (simp add: wakeTimeoutReached_def f)
  show ?case
    unfolding r c using ih unfolding w fr(6) fr(7) by auto
qed

subsection \<open>Sockets and the connected flag\<close>













subsection \<open>The range of a converted sample\<close>

lemma pcmOfSample_bounds: "- 32767 \<le> pcmOfSample x \<and> pcmOfSample x \<le> 32767"
  by (simp add: pcmOfSample_def max_def min_def)

lemma truncate_bounds:
  assumes "- 32767 \<le> r" "r \<le> 32767"
  shows "- 32767 \<le> truncate r \<and> truncate r \<le> 32767"
  using assms unfolding truncate_def by (auto simp: floor_le_iff le_floor_iff) linarith+

lemma sint_toInt16:
  assumes "- 32768 \<le> truncate r" "truncate r < 32768"
  shows "sint (toInt16 r) = truncate r"
  using assms unfolding toInt16_def
  by (simp add: sint_sbintrunc' signed_take_bit_int_eq_self)
subsection \<open>The detector by cases\<close>

text \<open>The detector, with the test of its second branch read as the four conditions.\<close>

lemma detectSilence_cases:
  "detectSilence cfg t a s =
     (if \<not> isSilent cfg (pushRms (rms a) (silenceDetectionBufferRef s))
      then setSleeping False
             (s\<lparr>silenceDetectionBufferRef := pushRms (rms a) (silenceDetectionBufferRef s),
                lastSpeechTimeRef := t, hasSpeechInBufferRef := True\<rparr>)
      else if autoCommitCondition cfg t a s
      then commitAudioBuffer cfg
             (logLine (AutoCommitting (autoCommitDelay cfg)) Info
                (s\<lparr>silenceDetectionBufferRef :=
                     pushRms (rms a) (silenceDetectionBufferRef s)\<rparr>))
      else if t - lastSpeechTimeRef s \<ge> 1000 \<and> \<not> hasSpeechInBufferRef s
      then setSleeping True
             (s\<lparr>silenceDetectionBufferRef := pushRms (rms a) (silenceDetectionBufferRef s)\<rparr>)
      else s\<lparr>silenceDetectionBufferRef := pushRms (rms a) (silenceDetectionBufferRef s)\<rparr>)"
  by (cases "isSilent cfg (pushRms (rms a) (silenceDetectionBufferRef s))")
     (simp_all add: detectSilence_def autoCommitCondition_def Let_def)

lemma autoCommitCondition_flags:
  "autoCommitCondition cfg t a s \<Longrightarrow>
     isSilent cfg (pushRms (rms a) (silenceDetectionBufferRef s)) \<and>
     hasSpeechInBufferRef s \<and> \<not> isProcessingAudioRef s"
  by (simp add: autoCommitCondition_def)

section \<open>The claims\<close>

subsection \<open>C1: which frames reach the buffer\<close>




subsection \<open>C2: appends need an open socket and no processing\<close>

text \<open>
  Claim C2: an \<open>input_audio_buffer.append\<close> is never sent while the client is
  processing, nor before the socket is open. Whatever the state and the event, the wire
  after the step is the wire before it followed by what the step sent, and if an append
  is among that, then the socket was open and the processing flag was false when the
  event arrived.
\<close>

theorem append_needs_open_socket:
  assumes "InputAudioBufferAppend bytes \<in> set (sentBy cfg te s)"
  shows "wire (step cfg te s) = wire s @ sentBy cfg te s \<and>
         wsRef s = Some OPEN \<and> \<not> isProcessingAudioRef s"
proof -
  from assms have sent: "sentBy cfg te s \<noteq> []"
    by auto
  have app: "wire (step cfg te s) = wire s @ sentBy cfg te s"
    by (rule step_wire_append)
  with sent have "wire (step cfg te s) \<noteq> wire s"
    by simp
  with step_wire_cases[of cfg te s] obtain new
    where opn: "wsRef s = Some OPEN"
      and new: "wire (step cfg te s) = wire s @ new"
      and clr: "isProcessingAudioRef s \<longrightarrow> new = [InputAudioBufferClear]"
    by blast
  from new app have "new = sentBy cfg te s"
    by simp
  with clr assms have "\<not> isProcessingAudioRef s"
    by auto
  with app opn show ?thesis
    by simp
qed

theorem append_needs_open_socket_witness:
  "InputAudioBufferAppend [0xC4, 0] \<in> set (sentBy defaultConfig (1000, CommitButton) recordingWithSpeech) \<and>
   wsRef recordingWithSpeech = Some OPEN \<and> \<not> isProcessingAudioRef recordingWithSpeech"
proof -
  have "sentBy defaultConfig (1000, CommitButton) recordingWithSpeech =
          [InputAudioBufferAppend [0xC4, 0], InputAudioBufferCommit]"
    unfolding sentBy_def awaitingResponse_def[symmetric]
    by (simp add: session_evals)
  then have m: "InputAudioBufferAppend [0xC4, 0]
                  \<in> set (sentBy defaultConfig (1000, CommitButton) recordingWithSpeech)"
    by simp
  from append_needs_open_socket[OF m] m show ?thesis
    by simp
qed

subsection \<open>C3: when an auto-commit fires\<close>

text \<open>
  Claim C3 says that an auto-commit fires exactly under its four conditions and at most
  once per speech episode, because it enters processing and clears the speech-seen flag.
  The detector does ask for a commit exactly under the four conditions, but
  \<open>commitAudioBuffer\<close> refuses the request when the socket is not open or the buffer is
  empty, and a refused request neither enters processing nor clears the flag. In the run
  \<open>speechThenLoss\<close> one frame of speech is captured and the connection is lost;
  \<open>onclose\<close> does not stop the capture, and the frames of silence go on. Once the
  delay has passed, each of the two quiet frames of \<open>twoQuietFrames\<close> announces an
  auto-commit and is refused with ``Cannot commit'': two announcements in one speech
  episode, no commit sent, the client never processing, the flag still set. Every event
  of the run is enabled where it occurs, and the frames have the 4096 samples of the
  capture.
\<close>

theorem auto_commit_refired:
  "possible defaultConfig
     ([(0, Connect True), (5, SocketOpened), (10, StartRecording WorkletStarted)]
      @ speechThenLoss @ twoQuietFrames) (initialState 0) \<and>
   run defaultConfig
     ([(0, Connect True), (5, SocketOpened), (10, StartRecording WorkletStarted)]
      @ speechThenLoss @ twoQuietFrames) (initialState 0) = refusedTwice \<and>
   length quietFrame = 4096 \<and> length loudFrame = 4096 \<and>
   hasSpeechInBufferRef silenceAfterLoss \<and> \<not> isProcessingAudioRef silenceAfterLoss \<and>
   autoCommitCount silenceAfterLoss = 0 \<and>
   autoCommitCount refusedTwice = 2 \<and>
   hasSpeechInBufferRef refusedTwice \<and> \<not> isProcessingAudioRef refusedTwice \<and>
   InputAudioBufferCommit \<notin> set (wire refusedTwice) \<and>
   console refusedTwice =
     console silenceAfterLoss
     @ [\<lparr>message = AutoCommitting 1500, logType = Info\<rparr>,
        \<lparr>message = CannotCommit, logType = Warning\<rparr>,
        \<lparr>message = AutoCommitting 1500, logType = Info\<rparr>,
        \<lparr>message = CannotCommit, logType = Warning\<rparr>]"
proof -
  have p: "possible defaultConfig
     ([(0, Connect True), (5, SocketOpened), (10, StartRecording WorkletStarted)]
      @ speechThenLoss @ twoQuietFrames) (initialState 0)"
    by (simp only: possible_append run_append recordingStarted_run recordingStarted_possible
        speechThenLoss_possible silenceAfterLoss_def[symmetric] twoQuietFrames_possible
        simp_thms)
  have r: "run defaultConfig
     ([(0, Connect True), (5, SocketOpened), (10, StartRecording WorkletStarted)]
      @ speechThenLoss @ twoQuietFrames) (initialState 0) = refusedTwice"
    by (simp only: run_append recordingStarted_run refusedTwice_def silenceAfterLoss_def)
  have e: "length quietFrame = 4096 \<and> length loudFrame = 4096 \<and>
   hasSpeechInBufferRef silenceAfterLoss \<and> \<not> isProcessingAudioRef silenceAfterLoss \<and>
   autoCommitCount silenceAfterLoss = 0 \<and>
   autoCommitCount refusedTwice = 2 \<and>
   hasSpeechInBufferRef refusedTwice \<and> \<not> isProcessingAudioRef refusedTwice \<and>
   InputAudioBufferCommit \<notin> set (wire refusedTwice) \<and>
   console refusedTwice =
     console silenceAfterLoss
     @ [\<lparr>message = AutoCommitting 1500, logType = Info\<rparr>,
        \<lparr>message = CannotCommit, logType = Warning\<rparr>,
        \<lparr>message = AutoCommitting 1500, logType = Info\<rparr>,
        \<lparr>message = CannotCommit, logType = Warning\<rparr>]"
    by (simp add: session_evals autoCommitCount_def quietFrame_def loudFrame_def)
  from p r e show ?thesis
    by (intro conjI) simp_all
qed

text \<open>
  Claim C3, amended: on a frame the detector announces an auto-commit and asks for a
  commit exactly when the frame is silent and the four conditions hold. A frame on which
  they do not hold sends nothing and leaves the processing flag and the buffer to the
  detector as they were; a frame sends a commit only when they hold, the socket is open
  and the buffer is not empty. When that is so and the buffer fits into one append, the
  request is accepted: the buffer is sent and committed, processing is entered and the
  speech-seen flag is cleared. When the socket is not open or the buffer is empty, the
  request is refused: nothing is sent, a warning is printed, the processing flag stays
  false, the flag stays set and the buffer is kept, so that the next silent frame asks
  again. A frame that arrives while processing is not evaluated, and from a state with
  the flag cleared no run announces an auto-commit as long as no event sets the flag
  again.

  A buffer too long for one append makes the commit throw: nothing is sent, the buffer
  is lost, and the flags stay as they were.
\<close>

theorem auto_commit_fires_and_clears:
  "autoCommitCount (detectSilence cfg t a s) =
     autoCommitCount s + (if autoCommitCondition cfg t a s then 1 else 0) \<and>
   (\<not> autoCommitCondition cfg t a s \<longrightarrow>
      wire (detectSilence cfg t a s) = wire s \<and>
      isProcessingAudioRef (detectSilence cfg t a s) = isProcessingAudioRef s \<and>
      audioBufferRef (detectSilence cfg t a s) = audioBufferRef s \<and>
      sentBy cfg (t, AudioData a) s = []) \<and>
   (InputAudioBufferCommit \<in> set (sentBy cfg (t, AudioData a) s) \<longrightarrow>
      autoCommitCondition cfg t a s \<and> wsRef s = Some OPEN \<and> audioBufferRef s \<noteq> []) \<and>
   (autoCommitCondition cfg t a s \<and> wsRef s = Some OPEN \<and> audioBufferRef s \<noteq> [] \<and>
    length (bytesOfPcm (audioBufferRef s)) \<le> argumentLimit cfg \<longrightarrow>
      isProcessingAudioRef (detectSilence cfg t a s) \<and>
      \<not> hasSpeechInBufferRef (detectSilence cfg t a s) \<and>
      audioBufferRef (detectSilence cfg t a s) = [] \<and>
      wire (detectSilence cfg t a s) =
        wire s @ [InputAudioBufferAppend (bytesOfPcm (audioBufferRef s)),
                  InputAudioBufferCommit] \<and>
      sentBy cfg (t, AudioData a) s =
        [InputAudioBufferAppend (bytesOfPcm (audioBufferRef s)), InputAudioBufferCommit]) \<and>
   (autoCommitCondition cfg t a s \<and> (wsRef s \<noteq> Some OPEN \<or> audioBufferRef s = []) \<longrightarrow>
      wire (detectSilence cfg t a s) = wire s \<and>
      \<not> isProcessingAudioRef (detectSilence cfg t a s) \<and>
      hasSpeechInBufferRef (detectSilence cfg t a s) \<and>
      audioBufferRef (detectSilence cfg t a s) = audioBufferRef s \<and>
      console (detectSilence cfg t a s) =
        console s @ [\<lparr>message = AutoCommitting (autoCommitDelay cfg), logType = Info\<rparr>,
                     \<lparr>message = (if wsRef s = Some OPEN then NoAudioDataToCommit
                                  else CannotCommit),
                      logType = Warning\<rparr>]) \<and>
   (autoCommitCondition cfg t a s \<and> wsRef s = Some OPEN \<and> audioBufferRef s \<noteq> [] \<and>
    length (bytesOfPcm (audioBufferRef s)) > argumentLimit cfg \<longrightarrow>
      threw s (detectSilence cfg t a s) \<and>
      wire (detectSilence cfg t a s) = wire s \<and>
      \<not> isProcessingAudioRef (detectSilence cfg t a s) \<and>
      hasSpeechInBufferRef (detectSilence cfg t a s) \<and>
      audioBufferRef (detectSilence cfg t a s) = []) \<and>
   (isProcessingAudioRef s \<longrightarrow> step cfg (t, AudioData a) s = s) \<and>
   (\<not> hasSpeechInBufferRef s \<and> noSpeechSeen cfg tes s \<longrightarrow>
      autoCommitCount (run cfg tes s) = autoCommitCount s)"
proof -
  have sent: "sentBy cfg (t, AudioData a) s =
      drop (length (wire s)) (wire (detectSilence cfg t a s))"
    by (simp add: sentBy_def step_def onAudioData_def capturedIsRecording_def
        processAudioData_wire detectSilence_def flag_defs Let_def)
  have cnt: "autoCommitCount (detectSilence cfg t a s) =
     autoCommitCount s + (if autoCommitCondition cfg t a s then 1 else 0)"
    by (rule detectSilence_autoCommitCount)
  have nocond0: "\<not> autoCommitCondition cfg t a s \<Longrightarrow>
      wire (detectSilence cfg t a s) = wire s \<and>
      isProcessingAudioRef (detectSilence cfg t a s) = isProcessingAudioRef s \<and>
      audioBufferRef (detectSilence cfg t a s) = audioBufferRef s"
    by (simp add: detectSilence_cases flag_defs Let_def)
  have nocond: "\<not> autoCommitCondition cfg t a s \<longrightarrow>
      wire (detectSilence cfg t a s) = wire s \<and>
      isProcessingAudioRef (detectSilence cfg t a s) = isProcessingAudioRef s \<and>
      audioBufferRef (detectSilence cfg t a s) = audioBufferRef s \<and>
      sentBy cfg (t, AudioData a) s = []"
    using nocond0 by (simp add: sent)
  have acc0: "autoCommitCondition cfg t a s \<and> wsRef s = Some OPEN \<and> audioBufferRef s \<noteq> [] \<and>
    length (bytesOfPcm (audioBufferRef s)) \<le> argumentLimit cfg \<Longrightarrow>
      isProcessingAudioRef (detectSilence cfg t a s) \<and>
      \<not> hasSpeechInBufferRef (detectSilence cfg t a s) \<and>
      audioBufferRef (detectSilence cfg t a s) = [] \<and>
      wire (detectSilence cfg t a s) =
        wire s @ [InputAudioBufferAppend (bytesOfPcm (audioBufferRef s)),
                  InputAudioBufferCommit]"
    by (intro accepted_autoCommit) simp_all
  have acc: "autoCommitCondition cfg t a s \<and> wsRef s = Some OPEN \<and> audioBufferRef s \<noteq> [] \<and>
    length (bytesOfPcm (audioBufferRef s)) \<le> argumentLimit cfg \<longrightarrow>
      isProcessingAudioRef (detectSilence cfg t a s) \<and>
      \<not> hasSpeechInBufferRef (detectSilence cfg t a s) \<and>
      audioBufferRef (detectSilence cfg t a s) = [] \<and>
      wire (detectSilence cfg t a s) =
        wire s @ [InputAudioBufferAppend (bytesOfPcm (audioBufferRef s)),
                  InputAudioBufferCommit] \<and>
      sentBy cfg (t, AudioData a) s =
        [InputAudioBufferAppend (bytesOfPcm (audioBufferRef s)), InputAudioBufferCommit]"
  proof
    assume h: "autoCommitCondition cfg t a s \<and> wsRef s = Some OPEN \<and>
      audioBufferRef s \<noteq> [] \<and> length (bytesOfPcm (audioBufferRef s)) \<le> argumentLimit cfg"
    from acc0[OF h] show "isProcessingAudioRef (detectSilence cfg t a s) \<and>
      \<not> hasSpeechInBufferRef (detectSilence cfg t a s) \<and>
      audioBufferRef (detectSilence cfg t a s) = [] \<and>
      wire (detectSilence cfg t a s) =
        wire s @ [InputAudioBufferAppend (bytesOfPcm (audioBufferRef s)),
                  InputAudioBufferCommit] \<and>
      sentBy cfg (t, AudioData a) s =
        [InputAudioBufferAppend (bytesOfPcm (audioBufferRef s)), InputAudioBufferCommit]"
      by (simp add: sent)
  qed
  have ref0: "autoCommitCondition cfg t a s \<Longrightarrow> wsRef s \<noteq> Some OPEN \<or> audioBufferRef s = [] \<Longrightarrow>
      detectSilence cfg t a s =
        logLine (if wsRef s = Some OPEN then NoAudioDataToCommit else CannotCommit) Warning
          (logLine (AutoCommitting (autoCommitDelay cfg)) Info
             (s\<lparr>silenceDetectionBufferRef :=
                  pushRms (rms a) (silenceDetectionBufferRef s)\<rparr>))"
    using autoCommitCondition_flags[of cfg t a s]
    by (cases "wsRef s = Some OPEN")
       (simp_all add: detectSilence_cases commitAudioBuffer_def logLine_def Let_def)
  have ref: "autoCommitCondition cfg t a s \<and> (wsRef s \<noteq> Some OPEN \<or> audioBufferRef s = []) \<longrightarrow>
      wire (detectSilence cfg t a s) = wire s \<and>
      \<not> isProcessingAudioRef (detectSilence cfg t a s) \<and>
      hasSpeechInBufferRef (detectSilence cfg t a s) \<and>
      audioBufferRef (detectSilence cfg t a s) = audioBufferRef s \<and>
      console (detectSilence cfg t a s) =
        console s @ [\<lparr>message = AutoCommitting (autoCommitDelay cfg), logType = Info\<rparr>,
                     \<lparr>message = (if wsRef s = Some OPEN then NoAudioDataToCommit
                                  else CannotCommit),
                      logType = Warning\<rparr>]"
  proof
    assume h: "autoCommitCondition cfg t a s \<and> (wsRef s \<noteq> Some OPEN \<or> audioBufferRef s = [])"
    then have f: "hasSpeechInBufferRef s" "\<not> isProcessingAudioRef s"
      using autoCommitCondition_flags[of cfg t a s] by simp_all
    from h have "detectSilence cfg t a s =
        logLine (if wsRef s = Some OPEN then NoAudioDataToCommit else CannotCommit) Warning
          (logLine (AutoCommitting (autoCommitDelay cfg)) Info
             (s\<lparr>silenceDetectionBufferRef :=
                  pushRms (rms a) (silenceDetectionBufferRef s)\<rparr>))"
      by (intro ref0) simp_all
    with f show "wire (detectSilence cfg t a s) = wire s \<and>
      \<not> isProcessingAudioRef (detectSilence cfg t a s) \<and>
      hasSpeechInBufferRef (detectSilence cfg t a s) \<and>
      audioBufferRef (detectSilence cfg t a s) = audioBufferRef s \<and>
      console (detectSilence cfg t a s) =
        console s @ [\<lparr>message = AutoCommitting (autoCommitDelay cfg), logType = Info\<rparr>,
                     \<lparr>message = (if wsRef s = Some OPEN then NoAudioDataToCommit
                                  else CannotCommit),
                      logType = Warning\<rparr>]"
      by (simp add: logLine_def)
  qed
  have thr: "autoCommitCondition cfg t a s \<and> wsRef s = Some OPEN \<and> audioBufferRef s \<noteq> [] \<and>
    length (bytesOfPcm (audioBufferRef s)) > argumentLimit cfg \<longrightarrow>
      threw s (detectSilence cfg t a s) \<and>
      wire (detectSilence cfg t a s) = wire s \<and>
      \<not> isProcessingAudioRef (detectSilence cfg t a s) \<and>
      hasSpeechInBufferRef (detectSilence cfg t a s) \<and>
      audioBufferRef (detectSilence cfg t a s) = []"
    using autoCommitCondition_flags[of cfg t a s]
    by (simp add: detectSilence_cases commitAudioBuffer_def sendAudioChunk_def threw_def
        logLine_def Let_def)
  have only: "InputAudioBufferCommit \<in> set (sentBy cfg (t, AudioData a) s) \<longrightarrow>
      autoCommitCondition cfg t a s \<and> wsRef s = Some OPEN \<and> audioBufferRef s \<noteq> []"
  proof
    assume m: "InputAudioBufferCommit \<in> set (sentBy cfg (t, AudioData a) s)"
    have c: "autoCommitCondition cfg t a s"
    proof (rule ccontr)
      assume "\<not> autoCommitCondition cfg t a s"
      with nocond have "sentBy cfg (t, AudioData a) s = []" by simp
      with m show False by simp
    qed
    have "\<not> (wsRef s \<noteq> Some OPEN \<or> audioBufferRef s = [])"
    proof
      assume "wsRef s \<noteq> Some OPEN \<or> audioBufferRef s = []"
      with c ref have "wire (detectSilence cfg t a s) = wire s" by simp
      then have "sentBy cfg (t, AudioData a) s = []" by (simp add: sent)
      with m show False by simp
    qed
    with c show "autoCommitCondition cfg t a s \<and> wsRef s = Some OPEN \<and> audioBufferRef s \<noteq> []"
      by simp
  qed
  have proc: "isProcessingAudioRef s \<longrightarrow> step cfg (t, AudioData a) s = s"
    by (simp add: step_def onAudioData_def)
  have norun: "\<not> hasSpeechInBufferRef s \<and> noSpeechSeen cfg tes s \<longrightarrow>
      autoCommitCount (run cfg tes s) = autoCommitCount s"
    by (simp add: run_no_autoCommit)
  from cnt nocond only acc ref thr proc norun show ?thesis
    by (intro conjI)
qed

text \<open>
  The accepted request at \<open>recordingWithSpeech\<close>; the refused one at
  \<open>silenceAfterLoss\<close>, where the socket is closed; a quiet frame at
  \<open>recordingStarted\<close>, where no speech has been seen; a frame at
  \<open>awaitingResponse\<close>; and two quiet frames from \<open>asleep\<close>.
\<close>

theorem auto_commit_fires_and_clears_witness:
  "autoCommitCount (detectSilence defaultConfig 1600 [0] recordingWithSpeech) = 1 \<and>
   isProcessingAudioRef (detectSilence defaultConfig 1600 [0] recordingWithSpeech) \<and>
   \<not> hasSpeechInBufferRef (detectSilence defaultConfig 1600 [0] recordingWithSpeech) \<and>
   wire (detectSilence defaultConfig 1600 [0] recordingWithSpeech) =
     [InputAudioBufferAppend [0xC4, 0], InputAudioBufferCommit] \<and>
   InputAudioBufferCommit \<in> set (sentBy defaultConfig (1600, AudioData [0]) recordingWithSpeech) \<and>
   autoCommitCondition defaultConfig 1802 quietFrame silenceAfterLoss \<and>
   wire (detectSilence defaultConfig 1802 quietFrame silenceAfterLoss) = [] \<and>
   \<not> isProcessingAudioRef (detectSilence defaultConfig 1802 quietFrame silenceAfterLoss) \<and>
   hasSpeechInBufferRef (detectSilence defaultConfig 1802 quietFrame silenceAfterLoss) \<and>
   console (detectSilence defaultConfig 1802 quietFrame silenceAfterLoss) =
     console silenceAfterLoss
     @ [\<lparr>message = AutoCommitting 1500, logType = Info\<rparr>,
        \<lparr>message = CannotCommit, logType = Warning\<rparr>] \<and>
   sentBy defaultConfig (500, AudioData [0]) recordingStarted = [] \<and>
   step defaultConfig (1850, AudioData [0]) awaitingResponse = awaitingResponse \<and>
   autoCommitCount (run defaultConfig [(1260, AudioData [0]), (1510, AudioData [0])] asleep) = 0"
proof -
  have c: "autoCommitCondition defaultConfig 1600 [0] recordingWithSpeech"
    "autoCommitCondition defaultConfig 1802 quietFrame silenceAfterLoss"
    "\<not> autoCommitCondition defaultConfig 500 [0] recordingStarted"
    by (simp_all add: autoCommitCondition_def session_evals rms_single rms_replicate
        quietFrame_def pushRms_def avgRms_def isSilent_def silenceDetectionWindow_def
        defaultConfig_def)
  have n: "noSpeechSeen defaultConfig [(1260, AudioData [0]), (1510, AudioData [0])] asleep"
    by (simp add: session_evals eval_defs rms_single)
  have z: "autoCommitCount recordingWithSpeech = 0" "autoCommitCount asleep = 0"
    "wire recordingWithSpeech = []" "wsRef recordingWithSpeech = Some OPEN"
    "audioBufferRef recordingWithSpeech = [98301 / 500]"
    "\<not> hasSpeechInBufferRef asleep" "isProcessingAudioRef awaitingResponse"
    "wsRef silenceAfterLoss = Some CLOSED" "wire silenceAfterLoss = []"
    "argumentLimit defaultConfig = 65536" "autoCommitDelay defaultConfig = 1500"
    by (simp_all add: autoCommitCount_def session_evals defaultConfig_def)
  have a1: "autoCommitCount (detectSilence defaultConfig 1600 [0] recordingWithSpeech) = 1 \<and>
   isProcessingAudioRef (detectSilence defaultConfig 1600 [0] recordingWithSpeech) \<and>
   \<not> hasSpeechInBufferRef (detectSilence defaultConfig 1600 [0] recordingWithSpeech) \<and>
   wire (detectSilence defaultConfig 1600 [0] recordingWithSpeech) =
     [InputAudioBufferAppend [0xC4, 0], InputAudioBufferCommit] \<and>
   InputAudioBufferCommit \<in> set (sentBy defaultConfig (1600, AudioData [0]) recordingWithSpeech)"
    using auto_commit_fires_and_clears[of defaultConfig 1600 "[0]" recordingWithSpeech "[]"]
      c(1) z
    by (simp add: bytesOfPcm_soft length_bytesOfPcm)
  have a2: "wire (detectSilence defaultConfig 1802 quietFrame silenceAfterLoss) = [] \<and>
   \<not> isProcessingAudioRef (detectSilence defaultConfig 1802 quietFrame silenceAfterLoss) \<and>
   hasSpeechInBufferRef (detectSilence defaultConfig 1802 quietFrame silenceAfterLoss) \<and>
   console (detectSilence defaultConfig 1802 quietFrame silenceAfterLoss) =
     console silenceAfterLoss
     @ [\<lparr>message = AutoCommitting 1500, logType = Info\<rparr>,
        \<lparr>message = CannotCommit, logType = Warning\<rparr>]"
    using auto_commit_fires_and_clears[of defaultConfig 1802 quietFrame silenceAfterLoss "[]"]
      c(2) z
    by simp
  have a3: "sentBy defaultConfig (500, AudioData [0]) recordingStarted = []"
    using auto_commit_fires_and_clears[of defaultConfig 500 "[0]" recordingStarted "[]"] c(3)
    by simp
  have a4: "step defaultConfig (1850, AudioData [0]) awaitingResponse = awaitingResponse"
    using auto_commit_fires_and_clears[of defaultConfig 1850 "[0]" awaitingResponse "[]"] z
    by simp
  have a5: "autoCommitCount
      (run defaultConfig [(1260, AudioData [0]), (1510, AudioData [0])] asleep) = 0"
    using auto_commit_fires_and_clears[of defaultConfig 0 "[]" asleep
      "[(1260, AudioData [0]), (1510, AudioData [0])]"] n z
    by simp
  from a1 a2 a3 a4 a5 c(2) show ?thesis
    by simp
qed

subsection \<open>C4: the latency published on \<open>response.done\<close>\<close>

text \<open>
  Claim C4: on \<open>response.done\<close> the published latency is the time since the commit was
  sent. The handler has no record of that time. It reads the clock on entry and again
  in the \<open>response.done\<close> case, and what it adds to the latency sum, logs as
  ``Transcription completed in ... ms'' and publishes in the statistics is the difference
  of these two readings: the time spent inside the handler, whatever came before.
\<close>

theorem response_done_latency:
  "latencySumRef (handleServerMessage cfg startTime doneTime (ResponseDone text) s) =
     latencySumRef s + (doneTime - startTime) \<and>
   latencySum (audioStats (handleServerMessage cfg startTime doneTime (ResponseDone text) s)) =
     latencySumRef s + (doneTime - startTime) \<and>
   latencyCountRef (handleServerMessage cfg startTime doneTime (ResponseDone text) s) =
     latencyCountRef s + 1 \<and>
   last (console (handleServerMessage cfg startTime doneTime (ResponseDone text) s)) =
     \<lparr>message = TranscriptionCompleted (doneTime - startTime), logType = Success\<rparr>"
  by (simp add: handleServerMessage_def processVoiceCommand_def flag_defs Let_def
      split: option.splits)

text \<open>
  In \<open>awaitingResponse\<close> the commit went out at 1000 ms. A \<open>response.done\<close> handled
  at 3000 ms publishes a latency of 0 ms, not of 2000 ms.
\<close>

theorem response_done_latency_witness:
  "InputAudioBufferCommit \<in> set (sentBy defaultConfig (1000, CommitButton) recordingWithSpeech) \<and>
   latencySumRef
     (step defaultConfig (3000, SocketMessage (ResponseDone (Some ''open browser'')) 0)
        awaitingResponse) = 0 \<and>
   latencySum (audioStats
     (step defaultConfig (3000, SocketMessage (ResponseDone (Some ''open browser'')) 0)
        awaitingResponse)) = 0 \<and>
   last (console
     (step defaultConfig (3000, SocketMessage (ResponseDone (Some ''open browser'')) 0)
        awaitingResponse)) =
     \<lparr>message = TranscriptionCompleted 0, logType = Success\<rparr>"
proof -
  have sent: "sentBy defaultConfig (1000, CommitButton) recordingWithSpeech =
          [InputAudioBufferAppend [0xC4, 0], InputAudioBufferCommit]"
    unfolding sentBy_def awaitingResponse_def[symmetric]
    by (simp add: session_evals)
  have st: "step defaultConfig (3000, SocketMessage (ResponseDone (Some ''open browser'')) 0)
              awaitingResponse =
            handleServerMessage defaultConfig 3000 3000 (ResponseDone (Some ''open browser''))
              awaitingResponse"
    by (simp add: step_def session_evals)
  have z: "latencySumRef awaitingResponse = 0"
    by (simp add: session_evals)
  from response_done_latency[of defaultConfig 3000 3000 "Some ''open browser''" awaitingResponse]
  show ?thesis
    unfolding st by (simp add: sent z)
qed

subsection \<open>C5: clearing an empty buffer\<close>

text \<open>
  Claim C5 says that a clear request on an empty buffer logs a warning and sends nothing.
  \<open>clearAudioBuffer\<close> does not look at the buffer: in \<open>connectedIdle\<close>, with the
  socket open and the buffer empty, it sends the clear message, and no warning is
  printed. There the button is disabled, and only a call of the function gets that far;
  in \<open>awaitingResponse\<close> the buffer is empty as well, since the commit has taken it,
  the button is enabled because the client is processing, and pressing it sends the
  clear message without a warning.
\<close>

theorem clear_on_empty_buffer_sends:
  "audioBufferRef connectedIdle = [] \<and>
   sentBy defaultConfig (10, ClearButton) connectedIdle = [InputAudioBufferClear] \<and>
   filter (\<lambda>e. logType e = Warning)
     (console (step defaultConfig (10, ClearButton) connectedIdle)) = [] \<and>
   possible defaultConfig
     ([(0, Connect True), (5, SocketOpened), (10, StartRecording WorkletStarted)]
      @ [(20, AudioData [3 / 500]), (1000, CommitButton)] @ [(1250, ClearButton)])
     (initialState 0) \<and>
   audioBufferRef awaitingResponse = [] \<and>
   sentBy defaultConfig (1250, ClearButton) awaitingResponse = [InputAudioBufferClear] \<and>
   filter (\<lambda>e. logType e = Warning)
     (console (step defaultConfig (1250, ClearButton) awaitingResponse)) = []"
proof -
  have r: "run defaultConfig [(20, AudioData [3 / 500]), (1000, CommitButton)] recordingStarted
      = awaitingResponse"
    by (simp add: awaitingResponse_def recordingWithSpeech_def)
  have en: "enabled awaitingResponse ClearButton"
    by (simp add: session_evals)
  have single: "possible defaultConfig [(1250, ClearButton)] awaitingResponse"
    using en by simp
  have p: "possible defaultConfig
     ([(0, Connect True), (5, SocketOpened), (10, StartRecording WorkletStarted)]
      @ [(20, AudioData [3 / 500]), (1000, CommitButton)] @ [(1250, ClearButton)])
     (initialState 0)"
    by (simp only: possible_append run_append recordingStarted_run recordingStarted_possible
        awaitingResponse_possible r single simp_thms)
  have e: "audioBufferRef connectedIdle = [] \<and>
   sentBy defaultConfig (10, ClearButton) connectedIdle = [InputAudioBufferClear] \<and>
   filter (\<lambda>e. logType e = Warning)
     (console (step defaultConfig (10, ClearButton) connectedIdle)) = [] \<and>
   audioBufferRef awaitingResponse = [] \<and>
   sentBy defaultConfig (1250, ClearButton) awaitingResponse = [InputAudioBufferClear] \<and>
   filter (\<lambda>e. logType e = Warning)
     (console (step defaultConfig (1250, ClearButton) awaitingResponse)) = []"
    by (simp add: sentBy_def session_evals step_def clearAudioBuffer_def flag_defs Let_def)
  from p e show ?thesis
    by (intro conjI) simp_all
qed

text \<open>
  Claim C5, amended: a clear request with the socket open, the buffer empty or not,
  empties the buffer, sends one \<open>input_audio_buffer.clear\<close> and logs ``Audio buffer
  cleared'' at info level (and the exit from processing mode, if the client was
  processing); with no open socket it sends nothing and logs nothing.
\<close>

theorem clear_sends_and_logs_info:
  "sentBy cfg (t, ClearButton) s =
     (if wsRef s = Some OPEN then [InputAudioBufferClear] else []) \<and>
   console (step cfg (t, ClearButton) s) =
     (if wsRef s = Some OPEN
      then console s @ [\<lparr>message = AudioBufferCleared, logType = Info\<rparr>]
             @ (if isProcessingAudioRef s
                then [\<lparr>message = ExitingProcessingMode, logType = Info\<rparr>] else [])
      else console s) \<and>
   audioBufferRef (step cfg (t, ClearButton) s) =
     (if wsRef s = Some OPEN then [] else audioBufferRef s)"
  by (simp add: sentBy_def step_def clearAudioBuffer_def flag_defs Let_def)

theorem clear_sends_and_logs_info_witness:
  "sentBy defaultConfig (10, ClearButton) connectedIdle = [InputAudioBufferClear] \<and>
   console (step defaultConfig (10, ClearButton) connectedIdle) =
     console connectedIdle @ [\<lparr>message = AudioBufferCleared, logType = Info\<rparr>] \<and>
   sentBy defaultConfig (10, ClearButton) (initialState 0) = [] \<and>
   console (step defaultConfig (10, ClearButton) (initialState 0)) = []"
  using clear_sends_and_logs_info[of defaultConfig 10 connectedIdle]
    clear_sends_and_logs_info[of defaultConfig 10 "initialState 0"]
  by (simp add: session_evals)

subsection \<open>C6: what a disconnect leaves behind\<close>




text \<open>
  Why the hypothesis on the older sockets is needed: \<open>connect\<close> replaces
  \<open>wsRef.current\<close> without closing the socket it held, and the handlers of that socket
  stay installed. After two connect requests and the loss of the second socket, the
  first one opens and its \<open>onopen\<close> shows the client connected, with a current socket
  that is closed.
\<close>

lemma older_socket_reconnects:
  "possible defaultConfig
     [(0, Connect True), (1, Connect True), (2, SocketClosed), (3, OrphanOpened 0)]
     (initialState 0) \<and>
   \<not> isConnected (run defaultConfig [(0, Connect True), (1, Connect True), (2, SocketClosed)]
                    (initialState 0)) \<and>
   isConnected (run defaultConfig
     [(0, Connect True), (1, Connect True), (2, SocketClosed), (3, OrphanOpened 0)]
     (initialState 0)) \<and>
   wsRef (run defaultConfig
     [(0, Connect True), (1, Connect True), (2, SocketClosed), (3, OrphanOpened 0)]
     (initialState 0)) = Some CLOSED"
  by (simp add: initialState_def eval_defs)

subsection \<open>C7: one transition into sleep\<close>

text \<open>
  Claim C7: when the smoothed energy stays below the threshold and no speech has been
  seen, the client goes to sleep once, not once per frame. Let the client record, awake
  and not processing, with no speech seen; let every frame of a sequence be silent, and
  let one of them come a second or more after the last speech. Then the frames print
  ``Entering sleep mode'' exactly once and nothing else, and the client ends asleep.
\<close>

theorem one_sleep_transition:
  assumes "isRecording s" "\<not> isProcessingAudioRef s" "\<not> hasSpeechInBufferRef s"
      and "\<not> isSleepingRef s"
      and "staysSilent cfg (silenceDetectionBufferRef s) frames"
      and "wakeTimeoutReached s frames"
  shows "console (run cfg (audioFrames frames) s) =
           console s @ [\<lparr>message = EnteringSleepMode, logType = Info\<rparr>] \<and>
         isSleepingRef (run cfg (audioFrames frames) s)"
proof -
  from silent_frames_console[OF assms(1-3) assms(5)]
  have "console (run cfg (audioFrames frames) s) =
          console s @ (if \<not> isSleepingRef s \<and> wakeTimeoutReached s frames
                       then [\<lparr>message = EnteringSleepMode, logType = Info\<rparr>] else [])"
    and "isSleepingRef (run cfg (audioFrames frames) s) =
          (isSleepingRef s \<or> wakeTimeoutReached s frames)"
    by simp_all
  with assms(4) assms(6) show ?thesis
    by simp
qed

theorem one_sleep_transition_witness:
  "console (run defaultConfig
              (audioFrames [(260, [0]), (510, [0]), (760, [0]), (1010, [0]), (1260, [0])])
              recordingStarted) =
     console recordingStarted @ [\<lparr>message = EnteringSleepMode, logType = Info\<rparr>] \<and>
   isSleepingRef (run defaultConfig
              (audioFrames [(260, [0]), (510, [0]), (760, [0]), (1010, [0]), (1260, [0])])
              recordingStarted)"
proof -
  have st: "isRecording recordingStarted" "\<not> isProcessingAudioRef recordingStarted"
    "\<not> hasSpeechInBufferRef recordingStarted" "\<not> isSleepingRef recordingStarted"
    by (simp_all add: session_evals)
  have sil: "staysSilent defaultConfig (silenceDetectionBufferRef recordingStarted)
               [(260, [0]), (510, [0]), (760, [0]), (1010, [0]), (1260, [0])]"
    by (simp add: session_evals rms_single pushRms_def avgRms_def isSilent_def
        silenceDetectionWindow_def defaultConfig_def)
  have wk: "wakeTimeoutReached recordingStarted
               [(260, [0]), (510, [0]), (760, [0]), (1010, [0]), (1260, [0])]"
    by (simp add: wakeTimeoutReached_def session_evals)
  from one_sleep_transition[OF st sil wk] show ?thesis .
qed

subsection \<open>C8: committing an empty buffer\<close>

text \<open>
  Claim C8: a manual commit with nothing buffered does nothing but warn. With an empty
  buffer the commit button sends nothing, leaves the buffer, the processing flag and the
  speech-seen flag as they were, and prints one entry, at warning level; the whole new
  state is the old one with that entry logged.
\<close>

theorem commit_on_empty_buffer_is_noop:
  assumes "audioBufferRef s = []"
  shows "sentBy cfg (t, CommitButton) s = [] \<and>
         wire (step cfg (t, CommitButton) s) = wire s \<and>
         audioBufferRef (step cfg (t, CommitButton) s) = audioBufferRef s \<and>
         isProcessingAudioRef (step cfg (t, CommitButton) s) = isProcessingAudioRef s \<and>
         hasSpeechInBufferRef (step cfg (t, CommitButton) s) = hasSpeechInBufferRef s \<and>
         console (step cfg (t, CommitButton) s) =
           console s @ [\<lparr>message = (if wsRef s = Some OPEN \<and> \<not> isProcessingAudioRef s
                                     then NoAudioDataToCommit else CannotCommit),
                         logType = Warning\<rparr>] \<and>
         step cfg (t, CommitButton) s =
           logLine (if wsRef s = Some OPEN \<and> \<not> isProcessingAudioRef s
                then NoAudioDataToCommit else CannotCommit) Warning s"
  using assms by (simp add: sentBy_def step_def commitAudioBuffer_def logLine_def)

theorem commit_on_empty_buffer_is_noop_witness:
  "audioBufferRef connectedIdle = [] \<and>
   sentBy defaultConfig (10, CommitButton) connectedIdle = [] \<and>
   console (step defaultConfig (10, CommitButton) connectedIdle) =
     console connectedIdle @ [\<lparr>message = NoAudioDataToCommit, logType = Warning\<rparr>]"
proof -
  have e: "audioBufferRef connectedIdle = []" and o: "wsRef connectedIdle = Some OPEN"
    and p: "\<not> isProcessingAudioRef connectedIdle"
    by (simp_all add: session_evals)
  from commit_on_empty_buffer_is_noop[OF e, of defaultConfig 10] e o p show ?thesis
    by (simp add: logLine_def)
qed

subsection \<open>C9: the energy window is bounded\<close>

text \<open>
  Claim C9: the window of recent energies never holds more than
  \<open>silenceDetectionWindow\<close> values. In every state reached from the mounted component
  the window is within the bound; a frame then leaves in it the last
  \<open>silenceDetectionWindow\<close> values of the old window followed by the frame's energy,
  which is again within the bound. The smoothed energy is the mean of that window.
\<close>

theorem energy_window_bounded:
  "length (silenceDetectionBufferRef (run cfg tes (initialState t0))) \<le> silenceDetectionWindow \<and>
   silenceDetectionBufferRef (detectSilence cfg t a (run cfg tes (initialState t0))) =
     drop (length (silenceDetectionBufferRef (run cfg tes (initialState t0)) @ [rms a])
             - silenceDetectionWindow)
          (silenceDetectionBufferRef (run cfg tes (initialState t0)) @ [rms a]) \<and>
   length (silenceDetectionBufferRef (detectSilence cfg t a (run cfg tes (initialState t0))))
     \<le> silenceDetectionWindow"
proof -
  have b: "length (silenceDetectionBufferRef (run cfg tes (initialState t0)))
             \<le> silenceDetectionWindow"
    by (rule run_window) (simp add: initialState_def)
  have w: "silenceDetectionBufferRef (detectSilence cfg t a (run cfg tes (initialState t0))) =
     drop (length (silenceDetectionBufferRef (run cfg tes (initialState t0)) @ [rms a])
             - silenceDetectionWindow)
          (silenceDetectionBufferRef (run cfg tes (initialState t0)) @ [rms a])"
    unfolding detectSilence_window by (rule pushRms_last[OF b])
  have l: "length (silenceDetectionBufferRef
                     (detectSilence cfg t a (run cfg tes (initialState t0))))
             \<le> silenceDetectionWindow"
    unfolding detectSilence_window by (rule pushRms_length[OF b])
  from b w l show ?thesis by (intro conjI)
qed

theorem energy_window_bounded_witness:
  "silenceDetectionBufferRef
     (detectSilence defaultConfig 30 [0]
        (run defaultConfig
           [(0, Connect True), (5, SocketOpened), (10, StartRecording WorkletStarted),
            (20, AudioData [3 / 500])] (initialState 0))) = [Some (3 / 500), Some 0]"
proof -
  have r: "run defaultConfig
           [(0, Connect True), (5, SocketOpened), (10, StartRecording WorkletStarted),
            (20, AudioData [3 / 500])] (initialState 0) = recordingWithSpeech"
    by (simp add: recordingWithSpeech_def recordingStarted_def connectedIdle_def)
  have w: "silenceDetectionBufferRef recordingWithSpeech = [Some (3 / 500)]"
    by (simp add: session_evals)
  from energy_window_bounded[of defaultConfig
      "[(0, Connect True), (5, SocketOpened), (10, StartRecording WorkletStarted),
        (20, AudioData [3 / 500])]" 0 30 "[0]"]
  show ?thesis
    unfolding r by (simp add: w rms_single silenceDetectionWindow_def)
qed

subsection \<open>C10: the range of the PCM values\<close>

text \<open>
  Claim C10: a sample is clamped to \<open>[-1, 1]\<close> and scaled by \<open>32767\<close>, so the 16-bit
  value made of it at transmission lies between \<open>-32767\<close> and \<open>32767\<close>, and
  \<open>-32768\<close> does not occur.
\<close>

theorem pcm_int16_range:
  "- 32767 \<le> sint (toInt16 (pcmOfSample x)) \<and> sint (toInt16 (pcmOfSample x)) \<le> 32767"
proof -
  have b: "- 32767 \<le> truncate (pcmOfSample x) \<and> truncate (pcmOfSample x) \<le> 32767"
    using truncate_bounds pcmOfSample_bounds by blast
  then have "sint (toInt16 (pcmOfSample x)) = truncate (pcmOfSample x)"
    by (intro sint_toInt16) linarith+
  with b show ?thesis by simp
qed

theorem pcm_int16_range_witness:
  "sint (toInt16 (pcmOfSample (- 3 / 2))) = - 32767 \<and>
   sint (toInt16 (pcmOfSample (3 / 2))) = 32767 \<and>
   sint (toInt16 (pcmOfSample (- 1 / 3))) = - 10922 \<and>
   sint (toInt16 (pcmOfSample (- 1 / 3))) \<le> 32767"
  using pcm_int16_range[of "- 1 / 3"]
  by (simp add: toInt16_def pcmOfSample_def truncate_def)

end
